theory Spec2Isabelle
  imports Main "HOL-Library.Stream" "HOL-Library.Word"
begin

section \<open>Shared vocabulary\<close>

text \<open>
  A Go \<^verbatim>\<open>error\<close> value is represented by its message; \<^verbatim>\<open>nil\<close> is \<open>None\<close> of
  \<open>error option\<close>. A Go function returning \<^verbatim>\<open>(T, error)\<close> becomes a function into
  \<open>error + T\<close>, with \<open>Inl\<close> for the error. A \<^verbatim>\<open>[]byte\<close> is a list of 8-bit words.
\<close>

type_synonym error = string
type_synonym byte = "8 word"
type_synonym bytes = "byte list"

text \<open>
  A Go call either returns or panics. The manual verifier of \<^verbatim>\<open>getClientTLSConfig\<close> is
  where this matters: \<^verbatim>\<open>certs[0]\<close> panics on an empty slice, \<^verbatim>\<open>AddCert\<close> panics on a \<^verbatim>\<open>nil\<close>
  certificate, and \<^verbatim>\<open>Verify\<close> on a \<^verbatim>\<open>nil\<close> receiver dereferences it.
\<close>

datatype 'a go = Returns 'a | Panics string

section \<open>client.go: TLS configuration\<close>

subsection \<open>The library as the code uses it\<close>

text \<open>
  A certificate is named by a string; a \<^verbatim>\<open>*x509.Certificate\<close> may be \<^verbatim>\<open>nil\<close>, hence
  \<open>cert option\<close>. An \<^verbatim>\<open>x509.CertPool\<close> is a set of certificates: \<^verbatim>\<open>x509.NewCertPool()\<close> is
  the empty set, and \<^verbatim>\<open>AddCert\<close> inserts a certificate and panics when handed \<^verbatim>\<open>nil\<close>. A
  \<^verbatim>\<open>*x509.CertPool\<close> may be \<^verbatim>\<open>nil\<close>, hence \<open>certPool option\<close>.
\<close>

type_synonym cert = string
type_synonym certPool = "cert set"

definition NewCertPool :: certPool where
  "NewCertPool = {}"

definition AddCert :: "certPool \<Rightarrow> cert option \<Rightarrow> certPool go" where
  "AddCert s cert =
     (case cert of
        None \<Rightarrow> Panics ''adding nil Certificate to CertPool''
      | Some c \<Rightarrow> Returns (insert c s))"

text \<open>The fields of \<^verbatim>\<open>x509.VerifyOptions\<close>; \<^verbatim>\<open>DNSName\<close> is the name to match, empty when
  it is not set.\<close>

record verifyOptions =
  DNSName :: string
  Intermediates :: certPool
  Roots :: "certPool option"
  CurrentTime :: nat

text \<open>The fields of \<^verbatim>\<open>tls.ConnectionState\<close> the code and the claims speak of;
  \<^verbatim>\<open>PeerCertificates\<close> is a \<^verbatim>\<open>[]*x509.Certificate\<close>.\<close>

record connectionState =
  PeerCertificates :: "cert option list"
  csServerName :: string

text \<open>The fields of \<^verbatim>\<open>tls.Config\<close> that \<^verbatim>\<open>getClientTLSConfig\<close> sets; the others keep their
  zero value.\<close>

record tlsConfig =
  ServerName :: string
  RootCAs :: "certPool option"
  InsecureSkipVerify :: bool
  VerifyConnection :: "(connectionState \<Rightarrow> error option go) option"

text \<open>
  What the client reads from outside the program, one field per library call of
  \<^verbatim>\<open>client.go\<close>: the file system, the PEM decoder behind \<^verbatim>\<open>AppendCertsFromPEM\<close>, the
  address parsers of package \<^verbatim>\<open>net\<close>, the clock, the chain verification of package
  \<^verbatim>\<open>x509\<close> and the private-key parsers of package \<^verbatim>\<open>ssh\<close>. The theorems hold for
  every such environment.
\<close>

record 'signer clientEnv =
  ioutil_ReadFile :: "string \<Rightarrow> error + bytes"
  pemCertificates :: "bytes \<Rightarrow> cert list"
  net_SplitHostPort :: "string \<Rightarrow> string \<times> string \<times> error option"
  net_ParseIP :: "string \<Rightarrow> bytes option"
  time_Now :: nat
  x509_Verify :: "cert \<Rightarrow> verifyOptions \<Rightarrow> error option"
  os_ReadFile :: "string \<Rightarrow> error + bytes"
  ssh_ParsePrivateKey :: "bytes \<Rightarrow> error + 'signer"
  ssh_ParsePrivateKeyWithPassphrase :: "bytes \<Rightarrow> bytes \<Rightarrow> error + 'signer"

text \<open>\<^verbatim>\<open>cp.AppendCertsFromPEM(data)\<close> adds every certificate found in \<^verbatim>\<open>data\<close> to the pool
  and reports whether it found one.\<close>

definition AppendCertsFromPEM ::
  "'s clientEnv \<Rightarrow> certPool \<Rightarrow> bytes \<Rightarrow> bool \<times> certPool" where
  "AppendCertsFromPEM env cp data =
     (pemCertificates env data \<noteq> [], cp \<union> set (pemCertificates env data))"

subsection \<open>loadCA\<close>

definition loadCA :: "'s clientEnv \<Rightarrow> string \<Rightarrow> error + certPool option" where
  "loadCA env caFile =
     (if caFile = [] then Inr None
      else
        (case ioutil_ReadFile env caFile of
           Inl err \<Rightarrow> Inl err
         | Inr data \<Rightarrow>
             (case AppendCertsFromPEM env NewCertPool data of
                (False, _) \<Rightarrow> Inl ''AppendCertsFromPEM failed''
              | (True, cp) \<Rightarrow> Inr (Some cp))))"

subsection \<open>getClientTLSConfig\<close>

text \<open>
  The loop of the manual verifier, over the pairs of index and certificate that
  \<^verbatim>\<open>range certs\<close> yields: every certificate but the one at index 0 is added to the pool of
  intermediates. The loop ends at the first panic of \<^verbatim>\<open>AddCert\<close>.
\<close>

fun addIntermediates :: "(nat \<times> cert option) list \<Rightarrow> certPool \<Rightarrow> certPool go" where
  "addIntermediates [] pool = Returns pool"
| "addIntermediates ((i, cert) # rest) pool =
     (if i = 0 then addIntermediates rest pool
      else
        (case AddCert pool cert of
           Panics msg \<Rightarrow> Panics msg
         | Returns pool' \<Rightarrow> addIntermediates rest pool'))"

text \<open>
  The closure installed as \<^verbatim>\<open>VerifyConnection\<close>; \<^verbatim>\<open>rootCAs\<close> and \<^verbatim>\<open>skipVerify\<close> are the
  variables it captures. After the loop, \<^verbatim>\<open>certs[0]\<close> on an empty slice is a run-time
  panic, and so is the call of \<^verbatim>\<open>Verify\<close> when \<^verbatim>\<open>certs[0]\<close> is \<^verbatim>\<open>nil\<close>.
\<close>

definition verifyConnection ::
  "'s clientEnv \<Rightarrow> certPool option \<Rightarrow> bool \<Rightarrow> connectionState \<Rightarrow> error option go" where
  "verifyConnection env rootCAs skipVerify cs =
     (if skipVerify then Returns None
      else
        (let certs = PeerCertificates cs
         in case addIntermediates (enumerate 0 certs) NewCertPool of
              Panics msg \<Rightarrow> Panics msg
            | Returns intermediates \<Rightarrow>
                (let opts = \<lparr>DNSName = [], Intermediates = intermediates,
                             Roots = rootCAs, CurrentTime = time_Now env\<rparr>
                 in case certs of
                      [] \<Rightarrow> Panics ''index out of range [0] with length 0''
                    | None # _ \<Rightarrow> Panics ''invalid memory address or nil pointer dereference''
                    | Some c # _ \<Rightarrow> Returns (x509_Verify env c opts))))"

definition getClientTLSConfig ::
  "'s clientEnv \<Rightarrow> string \<Rightarrow> string \<Rightarrow> bool \<Rightarrow> error + tlsConfig" where
  "getClientTLSConfig env addr ca skipVerify =
     (case loadCA env ca of
        Inl err \<Rightarrow> Inl err
      | Inr rootCAs \<Rightarrow>
          (let serverName = fst (net_SplitHostPort env addr)
           in if net_ParseIP env serverName \<noteq> None
              then Inr \<lparr>ServerName = [], RootCAs = None, InsecureSkipVerify = True,
                        VerifyConnection = Some (verifyConnection env rootCAs skipVerify)\<rparr>
              else Inr \<lparr>ServerName = serverName, RootCAs = rootCAs,
                        InsecureSkipVerify = skipVerify, VerifyConnection = None\<rparr>))"

section \<open>client.go: SSH configuration\<close>

text \<open>
  An \<^verbatim>\<open>ssh.AuthMethod\<close> is built by \<^verbatim>\<open>ssh.Password\<close> or by \<^verbatim>\<open>ssh.PublicKeys\<close>. A host-key
  callback receives the host name, the remote address and the key, and returns an error
  to reject the key. \<^verbatim>\<open>ssh.InsecureIgnoreHostKey()\<close> is the callback that returns \<^verbatim>\<open>nil\<close> for
  every key.
\<close>

datatype 'signer authMethod = Password string | PublicKeys 'signer

type_synonym hostKeyCallback = "string \<Rightarrow> string \<Rightarrow> bytes \<Rightarrow> error option"

definition InsecureIgnoreHostKey :: hostKeyCallback where
  "InsecureIgnoreHostKey = (\<lambda>hostname remote key. None)"

record 'signer sshClientConfig =
  User :: string
  Auth :: "'signer authMethod list"
  HostKeyCallback :: "hostKeyCallback option"

text \<open>The conversion \<^verbatim>\<open>[]byte(passphrase)\<close>.\<close>

definition bytesOf :: "string \<Rightarrow> bytes" where
  "bytesOf s = map of_char s"

definition getClientSSHConfit ::
  "'s clientEnv \<Rightarrow> string \<Rightarrow> string \<Rightarrow> string \<Rightarrow> string \<Rightarrow> error + 's sshClientConfig" where
  "getClientSSHConfit env username password key passphrase =
     (let sshConf0 = \<lparr>User = [], Auth = [], HostKeyCallback = Some InsecureIgnoreHostKey\<rparr>;
          sshConf =
            (if username \<noteq> [] \<and> password \<noteq> []
             then sshConf0\<lparr>User := username, Auth := Auth sshConf0 @ [Password password]\<rparr>
             else sshConf0)
      in if key \<noteq> []
         then
           (case os_ReadFile env key of
              Inl err \<Rightarrow> Inl err
            | Inr pemBytes \<Rightarrow>
                (if passphrase \<noteq> []
                 then
                   (case ssh_ParsePrivateKeyWithPassphrase env pemBytes (bytesOf passphrase) of
                      Inl err \<Rightarrow> Inl err
                    | Inr signer \<Rightarrow> Inr (sshConf\<lparr>Auth := Auth sshConf @ [PublicKeys signer]\<rparr>))
                 else
                   (case ssh_ParsePrivateKey env pemBytes of
                      Inl err \<Rightarrow> Inl err
                    | Inr signer \<Rightarrow> Inr (sshConf\<lparr>Auth := Auth sshConf @ [PublicKeys signer]\<rparr>))))
         else Inr sshConf)"

section \<open>client.go: launchClient\<close>

text \<open>The anonymous struct \<^verbatim>\<open>config\<close> that the \<^verbatim>\<open>[client]\<close> table is unmarshalled into.\<close>

record clientConfig =
  cfgListen :: string
  cfgUsername :: string
  cfgPassword :: string
  cfgServerProtocol :: string
  cfgServerAddr :: string
  cfgHTTPPath :: string
  cfgWSPath :: string
  cfgTLSSkipVerify :: bool
  cfgTLSCA :: string
  cfgSSHKey :: string
  cfgSSHPassphrase :: string

text \<open>
  The TOML tree as \<^verbatim>\<open>launchClient\<close> reads it: what \<^verbatim>\<open>t.Unmarshal(&config)\<close> gives, and
  what \<^verbatim>\<open>t.Get(key)\<close> gives. The type switches on \<^verbatim>\<open>t.Get\<close> have a case for a string, a
  case for a sub-tree (carried here with what unmarshalling it into a
  \<^verbatim>\<open>map[string]string\<close> gives) and no default case: every other value, \<^verbatim>\<open>nil\<close> included,
  is \<open>TomlOther\<close>.
\<close>

datatype tomlValue =
    TomlString string
  | TomlTree "error + (string \<rightharpoonup> string)"
  | TomlOther

record tomlTree =
  Unmarshal :: "error + clientConfig"
  Get :: "string \<Rightarrow> tomlValue"

text \<open>
  The fields of \<^verbatim>\<open>client.Client\<close> that \<^verbatim>\<open>launchClient\<close> assigns. Packages \<^verbatim>\<open>client\<close> and
  \<^verbatim>\<open>utils\<close> and the table \<^verbatim>\<open>needsTLS\<close> are not part of the files under study: their
  functions are taken as parameters, with the result types their call sites show.
  \<^verbatim>\<open>utils.VerifyByHtpasswd\<close> and \<^verbatim>\<open>utils.VerifyByMap\<close> return a verifier and no error.
\<close>

type_synonym verifier = "string \<Rightarrow> string \<Rightarrow> bool"

record ('s, 'r) client =
  cliAddr :: string
  cliUsername :: string
  cliPassword :: string
  cliServerProtocol :: string
  cliServerAddr :: string
  cliHTTPPath :: string
  cliWSPath :: string
  cliVerify :: "verifier option"
  cliRules :: "'r option"
  cliTLSConfig :: "tlsConfig option"
  cliSSHConfig :: "'s sshClientConfig option"

record ('s, 'r) launchEnv =
  NewClient :: "string \<Rightarrow> ('s, 'r) client"
  needsTLS :: "string \<Rightarrow> bool"
  VerifyByHtpasswd :: "string \<Rightarrow> verifier"
  VerifyByMap :: "(string \<rightharpoonup> string) \<Rightarrow> verifier"
  NewRulesFromFile :: "string \<Rightarrow> error + 'r"
  NewRulesFromMap :: "(string \<rightharpoonup> string) \<Rightarrow> error + 'r"
  Serve :: "('s, 'r) client \<Rightarrow> error option"

text \<open>
  \<^verbatim>\<open>log.Fatalf\<close> prints its message and ends the process with \<^verbatim>\<open>os.Exit(1)\<close>. A run of
  \<^verbatim>\<open>launchClient\<close> either ends the process (\<open>Exit\<close>, with the exit code, the format and
  the error printed) or returns. \<open>andThen\<close> sequences two steps: nothing runs after an
  exit.
\<close>

datatype 'a process = Exit nat string error | Return 'a

definition log_Fatalf :: "string \<Rightarrow> error \<Rightarrow> 'a process" where
  "log_Fatalf format err = Exit 1 format err"

fun andThen :: "'a process \<Rightarrow> ('a \<Rightarrow> 'b process) \<Rightarrow> 'b process" where
  "andThen (Exit code format err) k = Exit code format err"
| "andThen (Return x) k = k x"

text \<open>\<^verbatim>\<open>launchClient\<close>, one definition per step of its body, in the order of the source.\<close>

definition parseConfig :: "tomlTree \<Rightarrow> clientConfig process" where
  "parseConfig t =
     (case Unmarshal t of
        Inl err \<Rightarrow> log_Fatalf ''Parse '[client]' configuration failed: %s'' err
      | Inr config \<Rightarrow> Return config)"


definition newClient :: "('s, 'r) launchEnv \<Rightarrow> clientConfig \<Rightarrow> ('s, 'r) client" where
  "newClient lenv config =
     (NewClient lenv (cfgListen config))
       \<lparr>cliUsername := cfgUsername config,
        cliPassword := cfgPassword config,
        cliServerProtocol := cfgServerProtocol config,
        cliServerAddr := cfgServerAddr config,
        cliHTTPPath := cfgHTTPPath config,
        cliWSPath := cfgWSPath config\<rparr>"

definition setUsers ::
  "('s, 'r) launchEnv \<Rightarrow> tomlTree \<Rightarrow> ('s, 'r) client \<Rightarrow> ('s, 'r) client process" where
  "setUsers lenv t cli =
     (case Get t ''users'' of
        TomlString users \<Rightarrow> Return (cli\<lparr>cliVerify := Some (VerifyByHtpasswd lenv users)\<rparr>)
      | TomlTree unmarshalled \<Rightarrow>
          (case unmarshalled of
             Inl err \<Rightarrow> log_Fatalf ''Parse 'server.users' configuration failed: %s'' err
           | Inr m \<Rightarrow> Return (cli\<lparr>cliVerify := Some (VerifyByMap lenv m)\<rparr>))
      | TomlOther \<Rightarrow> Return cli)"

definition setRules ::
  "('s, 'r) launchEnv \<Rightarrow> tomlTree \<Rightarrow> ('s, 'r) client \<Rightarrow> ('s, 'r) client process" where
  "setRules lenv t cli =
     (case Get t ''rules'' of
        TomlString rules \<Rightarrow>
          (case NewRulesFromFile lenv rules of
             Inl err \<Rightarrow> log_Fatalf ''Load rule file failed: %s'' err
           | Inr r \<Rightarrow> Return (cli\<lparr>cliRules := Some r\<rparr>))
      | TomlTree unmarshalled \<Rightarrow>
          (case unmarshalled of
             Inl err \<Rightarrow> log_Fatalf ''Parse 'client.rules' configuration failed: %s'' err
           | Inr m \<Rightarrow>
               (case NewRulesFromMap lenv m of
                  Inl err \<Rightarrow> log_Fatalf ''Load rules file failed: %s'' err
                | Inr r \<Rightarrow> Return (cli\<lparr>cliRules := Some r\<rparr>)))
      | TomlOther \<Rightarrow> Return cli)"

definition setTLS ::
  "'s clientEnv \<Rightarrow> ('s, 'r) launchEnv \<Rightarrow> clientConfig \<Rightarrow> ('s, 'r) client \<Rightarrow>
     ('s, 'r) client process" where
  "setTLS env lenv config cli =
     (if needsTLS lenv (cfgServerProtocol config)
      then
        (case getClientTLSConfig env (cfgServerAddr config) (cfgTLSCA config)
                (cfgTLSSkipVerify config) of
           Inl err \<Rightarrow> log_Fatalf ''Get TLS configuration failed: %s'' err
         | Inr tlsConfig \<Rightarrow> Return (cli\<lparr>cliTLSConfig := Some tlsConfig\<rparr>))
      else Return cli)"

definition setSSH ::
  "'s clientEnv \<Rightarrow> clientConfig \<Rightarrow> ('s, 'r) client \<Rightarrow> ('s, 'r) client process" where
  "setSSH env config cli =
     (if cfgServerProtocol config = ''ssh''
      then
        (case getClientSSHConfit env (cfgUsername config) (cfgPassword config)
                (cfgSSHKey config) (cfgSSHPassphrase config) of
           Inl err \<Rightarrow> log_Fatalf ''Get SSH configuration failed: %s'' err
         | Inr sshConfig \<Rightarrow> Return (cli\<lparr>cliSSHConfig := Some sshConfig\<rparr>))
      else Return cli)"

definition serve :: "('s, 'r) launchEnv \<Rightarrow> ('s, 'r) client \<Rightarrow> ('s, 'r) client process" where
  "serve lenv cli =
     (case Serve lenv cli of
        Some err \<Rightarrow> log_Fatalf ''Launch client failed: %s'' err
      | None \<Rightarrow> Return cli)"

definition launchClient ::
  "'s clientEnv \<Rightarrow> ('s, 'r) launchEnv \<Rightarrow> tomlTree \<Rightarrow> ('s, 'r) client process" where
  "launchClient env lenv t =
     andThen (parseConfig t) (\<lambda>config.
     andThen (setUsers lenv t (newClient lenv config)) (\<lambda>cli.
     andThen (setRules lenv t cli) (\<lambda>cli.
     andThen (setTLS env lenv config cli) (\<lambda>cli.
     andThen (setSSH env config cli) (\<lambda>cli.
     serve lenv cli)))))"

section \<open>The WebSocket stripper of the server (package server)\<close>

subsection \<open>The libraries as the code uses them\<close>

text \<open>
  A WebSocket message is its type and its payload; \<^verbatim>\<open>websocket.TextMessage\<close> is 1 and
  \<^verbatim>\<open>websocket.BinaryMessage\<close> is 2.
\<close>

type_synonym message = "nat \<times> bytes"

definition TextMessage :: nat where
  "TextMessage = 1"

definition BinaryMessage :: nat where
  "BinaryMessage = 2"

text \<open>
  A \<^verbatim>\<open>*websocket.Conn\<close> as the stripper sees it. \<open>incoming\<close> is what the successive calls
  of \<^verbatim>\<open>ReadMessage\<close> will return, a message or an error each; \<open>outgoing\<close> is what the
  successive calls of \<^verbatim>\<open>WriteMessage\<close> will return, \<^verbatim>\<open>nil\<close> or an error each. \<open>received\<close>
  and \<open>sent\<close> record the messages that \<^verbatim>\<open>ReadMessage\<close> has returned and that
  \<^verbatim>\<open>WriteMessage\<close> has sent so far, in order. Any behaviour of the peer and of the
  network is some choice of the two streams.
\<close>

record wsConn =
  incoming :: "(error + message) stream"
  received :: "message list"
  outgoing :: "error option stream"
  sent :: "message list"

definition ReadMessage :: "wsConn \<Rightarrow> (error + message) \<times> wsConn" where
  "ReadMessage c =
     (case shd (incoming c) of
        Inl err \<Rightarrow> (Inl err, c\<lparr>incoming := stl (incoming c)\<rparr>)
      | Inr m \<Rightarrow> (Inr m, c\<lparr>incoming := stl (incoming c), received := received c @ [m]\<rparr>))"

definition WriteMessage :: "wsConn \<Rightarrow> nat \<Rightarrow> bytes \<Rightarrow> error option \<times> wsConn" where
  "WriteMessage c messageType data =
     (case shd (outgoing c) of
        Some err \<Rightarrow> (Some err, c\<lparr>outgoing := stl (outgoing c)\<rparr>)
      | None \<Rightarrow>
          (None, c\<lparr>outgoing := stl (outgoing c), sent := sent c @ [(messageType, data)]\<rparr>))"

text \<open>
  The built-in \<^verbatim>\<open>copy(dst, src)\<close> and the three methods of \<^verbatim>\<open>bytes.Buffer\<close> that the
  stripper calls. A buffer is the list of its unread bytes. \<open>Buffer_Read\<close> returns the
  count, the error and the caller's slice as it stands after the call.
\<close>

definition copy_bytes :: "bytes \<Rightarrow> bytes \<Rightarrow> nat \<times> bytes" where
  "copy_bytes dst src =
     (let n = min (length dst) (length src) in (n, take n src @ drop n dst))"

definition Buffer_Len :: "bytes \<Rightarrow> nat" where
  "Buffer_Len buffer = length buffer"

definition Buffer_Read :: "bytes \<Rightarrow> bytes \<Rightarrow> (nat \<times> error option \<times> bytes) \<times> bytes" where
  "Buffer_Read buffer b =
     (if buffer = []
      then (if length b = 0 then ((0, None, b), []) else ((0, Some ''EOF'', b), []))
      else (case copy_bytes b buffer of (n, b') \<Rightarrow> ((n, None, b'), drop n buffer)))"

definition Buffer_Write :: "bytes \<Rightarrow> bytes \<Rightarrow> bytes" where
  "Buffer_Write buffer p = buffer @ p"

text \<open>
  The parts of an \<^verbatim>\<open>*http.Request\<close> that the handshake reads. \<^verbatim>\<open>http.ReadRequest\<close> stores
  header names in canonical form, which \<^verbatim>\<open>Connection\<close> and \<^verbatim>\<open>Upgrade\<close> already have;
  \<^verbatim>\<open>Header.Get\<close> returns the first value stored under a name, or the empty string.
\<close>

record httpRequest =
  URL_Path :: string
  Header :: "string \<rightharpoonup> string list"

definition Header_Get :: "(string \<rightharpoonup> string list) \<Rightarrow> string \<Rightarrow> string" where
  "Header_Get h key = (case h key of None \<Rightarrow> [] | Some [] \<Rightarrow> [] | Some (v # _) \<Rightarrow> v)"

text \<open>An HTTP response, by its status line.\<close>

record httpResponse =
  StatusCode :: nat
  Status :: string

text \<open>
  Modelled from the spec: \<^verbatim>\<open>http404Response\<close> is a function of package \<^verbatim>\<open>server\<close> whose
  file is not among the files under study. The spec calls what the handshake answers to
  a request it does not accept a \<^verbatim>\<open>404 Not Found\<close> response.
\<close>

definition http404Response :: httpResponse where
  "http404Response = \<lparr>StatusCode = 404, Status = ''Not Found''\<rparr>"

text \<open>
  The \<^verbatim>\<open>net.Conn\<close> under the stripper, as the list of the HTTP responses written to it so
  far. What arrives on it is read through \<open>ioBuf\<close> below. \<^verbatim>\<open>Upgrader.Upgrade\<close> belongs
  to the WebSocket library: given the connection and the request, it answers on the
  connection and returns the WebSocket connection or an error.
\<close>

type_synonym netConn = "httpResponse list"

record serverEnv =
  Upgrade :: "netConn \<Rightarrow> httpRequest \<Rightarrow> (error + wsConn) \<times> netConn"

subsection \<open>wsStripper\<close>

text \<open>
  The struct \<^verbatim>\<open>wsStripper\<close>. \<open>WSPath\<close> stands for \<^verbatim>\<open>server.Config.WSPath\<close>. \<open>ioBuf\<close>, the
  buffered reader on the connection, is the stream of what the successive calls of
  \<^verbatim>\<open>http.ReadRequest\<close> on it will return, a request or an error each.
\<close>

record wsStripper =
  Conn :: netConn
  WSPath :: string
  buf :: bytes
  ioBuf :: "(error + httpRequest) stream"
  wsConn :: "wsConn option"

definition newWSStripper :: "string \<Rightarrow> netConn \<Rightarrow> (error + httpRequest) stream \<Rightarrow> wsStripper" where
  "newWSStripper path conn requests =
     \<lparr>Conn = conn, WSPath = path, buf = [], ioBuf = requests, wsConn = None\<rparr>"

text \<open>The condition under which the handshake answers 404.\<close>

definition rejected :: "string \<Rightarrow> httpRequest \<Rightarrow> bool" where
  "rejected path req \<longleftrightarrow>
     URL_Path req \<noteq> path \<or>
     Header_Get (Header req) ''Connection'' \<noteq> ''Upgrade'' \<or>
     Header_Get (Header req) ''Upgrade'' \<noteq> ''websocket''"

text \<open>
  \<^verbatim>\<open>handshake\<close>. Its loop has no bound: it runs for as long as requests arrive that it
  rejects, so the function is partial, and \<open>None\<close> is a call that never returns.
\<close>

partial_function (option) handshake ::
  "serverEnv \<Rightarrow> wsStripper \<Rightarrow> ((error + wsConn) \<times> wsStripper) option" where
  "handshake env w =
     (case shd (ioBuf w) of
        Inl err \<Rightarrow> Some (Inl err, w\<lparr>ioBuf := stl (ioBuf w)\<rparr>)
      | Inr req \<Rightarrow>
          if rejected (WSPath w) req
          then handshake env (w\<lparr>ioBuf := stl (ioBuf w), Conn := Conn w @ [http404Response]\<rparr>)
          else (case Upgrade env (Conn w) req of
                  (res, conn) \<Rightarrow> Some (res, w\<lparr>ioBuf := stl (ioBuf w), Conn := conn\<rparr>)))"

text \<open>
  The first statement of \<^verbatim>\<open>Read\<close> and of \<^verbatim>\<open>Write\<close>: when no WebSocket connection is
  there yet, the handshake runs and its result is stored in \<^verbatim>\<open>w.wsConn\<close>.
\<close>

definition ensureWSConn ::
  "serverEnv \<Rightarrow> wsStripper \<Rightarrow> ((error + wsConn) \<times> wsStripper) option" where
  "ensureWSConn env w =
     (case wsConn w of
        Some c \<Rightarrow> Some (Inr c, w)
      | None \<Rightarrow>
          (case handshake env w of
             None \<Rightarrow> None
           | Some (Inl err, w') \<Rightarrow> Some (Inl err, w'\<lparr>wsConn := None\<rparr>)
           | Some (Inr c, w') \<Rightarrow> Some (Inr c, w'\<lparr>wsConn := Some c\<rparr>)))"

text \<open>
  \<^verbatim>\<open>Read\<close> and \<^verbatim>\<open>Write\<close>. \<^verbatim>\<open>Read\<close> returns the count \<^verbatim>\<open>n\<close>, the error and the caller's
  slice \<^verbatim>\<open>b\<close> as it stands after the call: the bytes read are its first \<^verbatim>\<open>n\<close>.
\<close>

definition Read ::
  "serverEnv \<Rightarrow> wsStripper \<Rightarrow> bytes \<Rightarrow> ((nat \<times> error option \<times> bytes) \<times> wsStripper) option" where
  "Read env w0 b =
     (case ensureWSConn env w0 of
        None \<Rightarrow> None
      | Some (Inl err, w) \<Rightarrow> Some ((0, Some err, b), w)
      | Some (Inr c, w) \<Rightarrow>
          if Buffer_Len (buf w) > 0
          then (case Buffer_Read (buf w) b of (r, buffer) \<Rightarrow> Some (r, w\<lparr>buf := buffer\<rparr>))
          else
            (case ReadMessage c of
               (Inl err, c') \<Rightarrow> Some ((0, Some err, b), w\<lparr>wsConn := Some c'\<rparr>)
             | (Inr (messageType, p), c') \<Rightarrow>
                 (case copy_bytes b p of
                    (n, b') \<Rightarrow>
                      Some ((n, None, b'),
                            w\<lparr>wsConn := Some c', buf := Buffer_Write (buf w) (drop n p)\<rparr>))))"

definition Write ::
  "serverEnv \<Rightarrow> wsStripper \<Rightarrow> bytes \<Rightarrow> ((nat \<times> error option) \<times> wsStripper) option" where
  "Write env w0 b =
     (case ensureWSConn env w0 of
        None \<Rightarrow> None
      | Some (Inl err, w) \<Rightarrow> Some ((0, Some err), w)
      | Some (Inr c, w) \<Rightarrow>
          (case WriteMessage c BinaryMessage b of
             (Some err, c') \<Rightarrow> Some ((0, Some err), w\<lparr>wsConn := Some c'\<rparr>)
           | (None, c') \<Rightarrow> Some ((length b, None), w\<lparr>wsConn := Some c'\<rparr>)))"

text \<open>
  A caller that reads again and again, one call of \<^verbatim>\<open>Read\<close> per slice of the list,
  and collects the bytes each call returned; and the bytes of a list of messages.
\<close>

fun Reads :: "serverEnv \<Rightarrow> wsStripper \<Rightarrow> bytes list \<Rightarrow> (bytes list \<times> wsStripper) option" where
  "Reads env w [] = Some ([], w)"
| "Reads env w (b # bs) =
     (case Read env w b of
        None \<Rightarrow> None
      | Some ((n, err, b'), w') \<Rightarrow>
          (case Reads env w' bs of
             None \<Rightarrow> None
           | Some (chunks, w'') \<Rightarrow> Some (take n b' # chunks, w'')))"

definition payloads :: "message list \<Rightarrow> bytes" where
  "payloads ms = concat (map snd ms)"

subsection \<open>Requests that carry the upgrade headers\<close>

text \<open>
  The handshake's own test is \<open>rejected\<close> above. The following predicate is not part of
  the code: it is what RFC 6455 (section 4.2.1), and \<^verbatim>\<open>Upgrader.Upgrade\<close> of the WebSocket
  library after it, count as a request that carries the upgrade headers. The
  \<^verbatim>\<open>Connection\<close> header lists the token \<^verbatim>\<open>upgrade\<close> and the \<^verbatim>\<open>Upgrade\<close> header lists the
  token \<^verbatim>\<open>websocket\<close>, where a header value is a list of tokens separated by commas, with
  optional blanks around them, and tokens are compared without regard to case.
\<close>

fun splitComma :: "string \<Rightarrow> string list" where
  "splitComma [] = [[]]"
| "splitComma (c # cs) =
     (if c = CHR '','' then [] # splitComma cs
      else (case splitComma cs of
              [] \<Rightarrow> [[c]]
            | t # ts \<Rightarrow> (c # t) # ts))"

definition trimBlanks :: "string \<Rightarrow> string" where
  "trimBlanks s =
     rev (dropWhile (\<lambda>c. c = CHR '' '' \<or> c = CHR 0x09)
       (rev (dropWhile (\<lambda>c. c = CHR '' '' \<or> c = CHR 0x09) s)))"

definition asciiLower :: "char \<Rightarrow> char" where
  "asciiLower c =
     (case map_of (zip ''ABCDEFGHIJKLMNOPQRSTUVWXYZ'' ''abcdefghijklmnopqrstuvwxyz'') c of
        None \<Rightarrow> c
      | Some l \<Rightarrow> l)"

definition headerTokens :: "string \<Rightarrow> string list" where
  "headerTokens s = map (\<lambda>t. map asciiLower (trimBlanks t)) (splitComma s)"

definition carriesUpgradeHeaders :: "httpRequest \<Rightarrow> bool" where
  "carriesUpgradeHeaders req \<longleftrightarrow>
     ''upgrade'' \<in> set (headerTokens (Header_Get (Header req) ''Connection'')) \<and>
     ''websocket'' \<in> set (headerTokens (Header_Get (Header req) ''Upgrade''))"

section \<open>A concrete environment\<close>

text \<open>
  One environment on which the definitions can be run: a CA bundle \<^verbatim>\<open>ca.pem\<close> holding
  one root certificate, a server reachable by IP literal and by domain name, a leaf
  certificate the root vouches for, and a private key file \<^verbatim>\<open>id_rsa\<close>.
\<close>

definition exampleEnv :: "nat clientEnv" where
  "exampleEnv =
     \<lparr>ioutil_ReadFile = (\<lambda>p. if p = ''ca.pem'' then Inr [1, 2, 3] else Inl ''no such file''),
      pemCertificates = (\<lambda>d. if d = [1, 2, 3] then [''rootCA''] else []),
      net_SplitHostPort =
        (\<lambda>a. if a = ''10.0.0.1:443'' then (''10.0.0.1'', ''443'', None)
             else if a = ''example.com:443'' then (''example.com'', ''443'', None)
             else ([], [], Some ''missing port in address'')),
      net_ParseIP = (\<lambda>h. if h = ''10.0.0.1'' then Some [10, 0, 0, 1] else None),
      time_Now = 0,
      x509_Verify =
        (\<lambda>c opts. if c = ''leaf'' \<and> Roots opts = Some {''rootCA''} then None
                  else Some ''certificate signed by unknown authority''),
      os_ReadFile = (\<lambda>p. if p = ''id_rsa'' then Inr [7] else Inl ''no such file''),
      ssh_ParsePrivateKey = (\<lambda>b. if b = [7] then Inr 1 else Inl ''ssh: no key found''),
      ssh_ParsePrivateKeyWithPassphrase =
        (\<lambda>b p. if b = [7] \<and> p = bytesOf ''secret'' then Inr 2
               else Inl ''x509: decryption password incorrect'')\<rparr>"

definition exampleLaunchEnv :: "(nat, string list) launchEnv" where
  "exampleLaunchEnv =
     \<lparr>NewClient = (\<lambda>addr.
        \<lparr>cliAddr = addr, cliUsername = [], cliPassword = [], cliServerProtocol = [],
         cliServerAddr = [], cliHTTPPath = [], cliWSPath = [], cliVerify = None,
         cliRules = None, cliTLSConfig = None, cliSSHConfig = None\<rparr>),
      needsTLS = (\<lambda>protocol. protocol = ''https'' \<or> protocol = ''wss''),
      VerifyByHtpasswd = (\<lambda>path username password. False),
      VerifyByMap = (\<lambda>m username password. m username = Some password),
      NewRulesFromFile = (\<lambda>path. Inl ''no such file''),
      NewRulesFromMap = (\<lambda>m. Inr []),
      Serve = (\<lambda>cli. None)\<rparr>"

definition exampleConfig :: clientConfig where
  "exampleConfig =
     \<lparr>cfgListen = ''127.0.0.1:1080'', cfgUsername = [], cfgPassword = [],
      cfgServerProtocol = ''wss'', cfgServerAddr = ''10.0.0.1:443'', cfgHTTPPath = ''/'',
      cfgWSPath = ''/'', cfgTLSSkipVerify = False, cfgTLSCA = ''missing.pem'',
      cfgSSHKey = [], cfgSSHPassphrase = []\<rparr>"

definition exampleTree :: tomlTree where
  "exampleTree = \<lparr>Unmarshal = Inr exampleConfig, Get = (\<lambda>key. TomlOther)\<rparr>"

text \<open>
  A server on path \<^verbatim>\<open>/chat\<close>: the peer first asks for \<^verbatim>\<open>/wrong\<close>, then for \<^verbatim>\<open>/chat\<close>; once
  upgraded it sends a message of five bytes and one of two, then closes.
\<close>

definition exampleWS :: wsConn where
  "exampleWS =
     \<lparr>incoming = Inr (BinaryMessage, [1, 2, 3, 4, 5]) ## Inr (BinaryMessage, [6, 7]) ##
                   sconst (Inl ''use of closed network connection''),
      received = [], outgoing = sconst None, sent = []\<rparr>"

definition exampleServerEnv :: serverEnv where
  "exampleServerEnv =
     \<lparr>Upgrade = (\<lambda>conn req.
        (Inr exampleWS, conn @ [\<lparr>StatusCode = 101, Status = ''Switching Protocols''\<rparr>]))\<rparr>"

definition upgradeRequest :: "string \<Rightarrow> httpRequest" where
  "upgradeRequest path =
     \<lparr>URL_Path = path,
      Header = [''Connection'' \<mapsto> [''Upgrade''], ''Upgrade'' \<mapsto> [''websocket'']]\<rparr>"

definition exampleStripper :: wsStripper where
  "exampleStripper =
     newWSStripper ''/chat'' []
       (Inr (upgradeRequest ''/wrong'') ## Inr (upgradeRequest ''/chat'') ## sconst (Inl ''EOF''))"

definition upgradedStripper :: wsStripper where
  "upgradedStripper =
     \<lparr>Conn = [http404Response, \<lparr>StatusCode = 101, Status = ''Switching Protocols''\<rparr>],
      WSPath = ''/chat'', buf = [], ioBuf = sconst (Inl ''EOF''), wsConn = Some exampleWS\<rparr>"

definition afterFirstRead :: wsStripper where
  "afterFirstRead =
     upgradedStripper
       \<lparr>wsConn := Some (exampleWS\<lparr>incoming := stl (incoming exampleWS),
                                 received := received exampleWS @ [(BinaryMessage, [1, 2, 3, 4, 5])]\<rparr>),
        buf := [3, 4, 5]\<rparr>"

text \<open>
  Two more peers: one that asks for \<^verbatim>\<open>/wrong\<close> for ever, and one that asks for \<^verbatim>\<open>/wrong\<close>
  once and then closes. And a client configuration in which every step succeeds.
\<close>

definition proberStripper :: wsStripper where
  "proberStripper = newWSStripper ''/chat'' [] (sconst (Inr (upgradeRequest ''/wrong'')))"

definition closingStripper :: wsStripper where
  "closingStripper =
     newWSStripper ''/chat'' []
       (Inr (upgradeRequest ''/wrong'') ## Inl ''EOF'' ## sconst (Inl ''EOF''))"

definition goodConfig :: clientConfig where
  "goodConfig = exampleConfig\<lparr>cfgServerAddr := ''example.com:443'', cfgTLSCA := ''ca.pem''\<rparr>"

definition goodTree :: tomlTree where
  "goodTree =
     \<lparr>Unmarshal = Inr goodConfig,
      Get = (\<lambda>key. if key = ''rules'' then TomlTree (Inr [''*'' \<mapsto> ''proxy'']) else TomlOther)\<rparr>"

definition goodClient :: "(nat, string list) client" where
  "goodClient =
     \<lparr>cliAddr = ''127.0.0.1:1080'', cliUsername = [], cliPassword = [],
      cliServerProtocol = ''wss'', cliServerAddr = ''example.com:443'', cliHTTPPath = ''/'',
      cliWSPath = ''/'', cliVerify = None, cliRules = Some [],
      cliTLSConfig = Some \<lparr>ServerName = ''example.com'', RootCAs = Some {''rootCA''},
                             InsecureSkipVerify = False, VerifyConnection = None\<rparr>,
      cliSSHConfig = None\<rparr>"

text \<open>
  A peer whose upgrade request lists \<^verbatim>\<open>Upgrade\<close> among other tokens of the \<^verbatim>\<open>Connection\<close>
  header, as some browsers send it, and which then closes.
\<close>

definition tokenListRequest :: httpRequest where
  "tokenListRequest =
     \<lparr>URL_Path = ''/chat'',
      Header = [''Connection'' \<mapsto> [''keep-alive, Upgrade''], ''Upgrade'' \<mapsto> [''websocket'']]\<rparr>"

definition browserStripper :: wsStripper where
  "browserStripper =
     newWSStripper ''/chat'' [] (Inr tokenListRequest ## Inl ''EOF'' ## sconst (Inl ''EOF''))"

section \<open>Properties of the TLS configuration\<close>

lemma addIntermediates_aux:
  "addIntermediates (enumerate (Suc n) (map Some xs)) pool = Returns (pool \<union> set xs)"
  by (induction xs arbitrary: n pool) (simp_all add: AddCert_def)

lemma addIntermediates_chain:
  "addIntermediates (enumerate 0 (map Some (c # rest))) NewCertPool = Returns (set rest)"
  by (simp add: NewCertPool_def addIntermediates_aux)

lemma addIntermediates_nil:
  "None \<in> set xs \<Longrightarrow>
   addIntermediates (enumerate (Suc n) xs) pool = Panics ''adding nil Certificate to CertPool''"
proof (induction xs arbitrary: n pool)
  case Nil
  then show ?case by simp
next
  case (Cons x xs)
  then show ?case by (cases x) (auto simp: AddCert_def)
qed

lemma loadCA_example: "loadCA exampleEnv ''ca.pem'' = Inr (Some {''rootCA''})"
  by (simp add: loadCA_def exampleEnv_def AppendCertsFromPEM_def NewCertPool_def)

lemma example_hosts:
  "net_ParseIP exampleEnv (fst (net_SplitHostPort exampleEnv ''10.0.0.1:443'')) \<noteq> None"
  "net_ParseIP exampleEnv (fst (net_SplitHostPort exampleEnv ''example.com:443'')) = None"
  "fst (net_SplitHostPort exampleEnv ''example.com:443'') = ''example.com''"
  by (simp_all add: exampleEnv_def)

text \<open>
  C3. Once the CA bundle has been loaded, the configuration is chosen by the host part
  of the server address. If the host parses as an IP literal, the library's own
  verification is switched off (\<open>InsecureSkipVerify\<close>) and the manual verifier is
  installed; with \<open>skipVerify\<close> off and a chain of certificates \<open>c # rest\<close>, that verifier
  returns what
  verifying \<open>c\<close> gives against the loaded roots, with exactly the certificates of \<open>rest\<close>
  as intermediates and no DNS name to match, whatever server name the connection state
  carries. Otherwise the configuration names the host as \<open>ServerName\<close>, carries the loaded
  pool as \<open>RootCAs\<close> and installs no verifier of its own.
\<close>

theorem getClientTLSConfig_mode:
  assumes "loadCA env ca = Inr rootCAs"
  shows "getClientTLSConfig env addr ca skipVerify =
     (if net_ParseIP env (fst (net_SplitHostPort env addr)) \<noteq> None
      then Inr \<lparr>ServerName = [], RootCAs = None, InsecureSkipVerify = True,
                VerifyConnection = Some (verifyConnection env rootCAs skipVerify)\<rparr>
      else Inr \<lparr>ServerName = fst (net_SplitHostPort env addr), RootCAs = rootCAs,
                InsecureSkipVerify = skipVerify, VerifyConnection = None\<rparr>) \<and>
     verifyConnection env rootCAs False
         \<lparr>PeerCertificates = map Some (c # rest), csServerName = sn\<rparr> =
       Returns (x509_Verify env c
         \<lparr>DNSName = [], Intermediates = set rest, Roots = rootCAs, CurrentTime = time_Now env\<rparr>)"
  using assms addIntermediates_chain [of c rest]
  by (simp add: getClientTLSConfig_def Let_def verifyConnection_def)

theorem getClientTLSConfig_mode_witness:
  "loadCA exampleEnv ''ca.pem'' = Inr (Some {''rootCA''}) \<and>
   getClientTLSConfig exampleEnv ''10.0.0.1:443'' ''ca.pem'' False =
     Inr \<lparr>ServerName = [], RootCAs = None, InsecureSkipVerify = True,
          VerifyConnection = Some (verifyConnection exampleEnv (Some {''rootCA''}) False)\<rparr> \<and>
   verifyConnection exampleEnv (Some {''rootCA''}) False
       \<lparr>PeerCertificates = [Some ''leaf'', Some ''mid''], csServerName = ''ignored''\<rparr> =
     Returns None \<and>
   getClientTLSConfig exampleEnv ''example.com:443'' ''ca.pem'' False =
     Inr \<lparr>ServerName = ''example.com'', RootCAs = Some {''rootCA''},
          InsecureSkipVerify = False, VerifyConnection = None\<rparr>"
proof -
  have ca: "loadCA exampleEnv ''ca.pem'' = Inr (Some {''rootCA''})"
    by (rule loadCA_example)
  have v: "x509_Verify exampleEnv ''leaf''
      \<lparr>DNSName = [], Intermediates = set [''mid''], Roots = Some {''rootCA''},
       CurrentTime = time_Now exampleEnv\<rparr> = None"
    by (simp add: exampleEnv_def)
  from getClientTLSConfig_mode [OF ca, of "''10.0.0.1:443''" False "''leaf''" "[''mid'']" "''ignored''"]
       getClientTLSConfig_mode [OF ca, of "''example.com:443''" False "''leaf''" "[''mid'']" "''ignored''"]
  show ?thesis using ca example_hosts v by simp
qed

text \<open>
  C4. With \<open>skipVerify\<close> set, whatever CA bundle was loaded (none, or any pool), the
  configuration built skips verification: for an IP literal the installed verifier
  returns \<^verbatim>\<open>nil\<close> on every connection state, an empty chain included, so it never
  consults the certificates; for a domain name \<open>InsecureSkipVerify\<close> is set.
  (A bundle that cannot be loaded still makes \<^verbatim>\<open>getClientTLSConfig\<close> return the
  loading error: the hypothesis is that loading succeeded.)
\<close>

theorem skip_verify_wins:
  assumes "loadCA env ca = Inr rootCAs"
  shows "\<exists>cfg. getClientTLSConfig env addr ca True = Inr cfg \<and> InsecureSkipVerify cfg \<and>
     (if net_ParseIP env (fst (net_SplitHostPort env addr)) \<noteq> None
      then \<exists>verify. VerifyConnection cfg = Some verify \<and> (\<forall>cs. verify cs = Returns None)
      else VerifyConnection cfg = None)"
  using assms by (simp add: getClientTLSConfig_def Let_def verifyConnection_def)

theorem skip_verify_wins_witness:
  "loadCA exampleEnv ''ca.pem'' = Inr (Some {''rootCA''}) \<and>
   (\<exists>cfg verify. getClientTLSConfig exampleEnv ''10.0.0.1:443'' ''ca.pem'' True = Inr cfg \<and>
      InsecureSkipVerify cfg \<and> VerifyConnection cfg = Some verify \<and>
      (\<forall>cs. verify cs = Returns None)) \<and>
   (\<exists>cfg. getClientTLSConfig exampleEnv ''example.com:443'' ''ca.pem'' True = Inr cfg \<and>
      InsecureSkipVerify cfg \<and> VerifyConnection cfg = None)"
proof -
  have ca: "loadCA exampleEnv ''ca.pem'' = Inr (Some {''rootCA''})"
    by (rule loadCA_example)
  from skip_verify_wins [OF ca, of "''10.0.0.1:443''"]
       skip_verify_wins [OF ca, of "''example.com:443''"]
  show ?thesis using ca example_hosts by auto
qed

lemma example_IP_config:
  "getClientTLSConfig exampleEnv ''10.0.0.1:443'' ''ca.pem'' False =
     Inr \<lparr>ServerName = [], RootCAs = None, InsecureSkipVerify = True,
          VerifyConnection = Some (verifyConnection exampleEnv (Some {''rootCA''}) False)\<rparr>"
  using loadCA_example example_hosts by (simp add: getClientTLSConfig_def Let_def)

lemma nil_free_chain: "None \<notin> set xs \<Longrightarrow> xs = map Some (map the xs)"
  by (induction xs) auto

text \<open>
  C9, as the code has it. The claim that the manual verifier returns on every connection
  state fails on the empty chain, which the claim names: \<^verbatim>\<open>certs[0]\<close> panics there. It
  fails as well on a chain whose first entry is \<^verbatim>\<open>nil\<close> (\<^verbatim>\<open>Verify\<close> dereferences it) and on
  a chain with a \<^verbatim>\<open>nil\<close> entry further on (\<^verbatim>\<open>AddCert\<close> panics).
\<close>

theorem verifier_empty_chain_panics:
  "getClientTLSConfig exampleEnv ''10.0.0.1:443'' ''ca.pem'' False =
     Inr \<lparr>ServerName = [], RootCAs = None, InsecureSkipVerify = True,
          VerifyConnection = Some (verifyConnection exampleEnv (Some {''rootCA''}) False)\<rparr> \<and>
   verifyConnection exampleEnv (Some {''rootCA''}) False
       \<lparr>PeerCertificates = [], csServerName = []\<rparr> =
     Panics ''index out of range [0] with length 0'' \<and>
   verifyConnection exampleEnv (Some {''rootCA''}) False
       \<lparr>PeerCertificates = [None], csServerName = []\<rparr> =
     Panics ''invalid memory address or nil pointer dereference'' \<and>
   verifyConnection exampleEnv (Some {''rootCA''}) False
       \<lparr>PeerCertificates = [Some ''leaf'', None], csServerName = []\<rparr> =
     Panics ''adding nil Certificate to CertPool''"
  using example_IP_config
  by (simp add: verifyConnection_def NewCertPool_def AddCert_def)

text \<open>
  C9, amended. With \<open>skipVerify\<close> off, the verifier installed for an IP literal returns
  on every connection state whose list of peer certificates is not empty and holds no
  \<^verbatim>\<open>nil\<close> entry: its value is the result of verifying the first certificate with the
  others as intermediates, success or a verification error.
\<close>

theorem verifier_returns_on_nonempty_chain:
  assumes "getClientTLSConfig env addr ca False = Inr cfg"
    and "VerifyConnection cfg = Some verify"
    and "PeerCertificates cs \<noteq> []"
    and "None \<notin> set (PeerCertificates cs)"
  shows "\<exists>rootCAs c rest. loadCA env ca = Inr rootCAs \<and>
     PeerCertificates cs = map Some (c # rest) \<and>
     verify cs = Returns (x509_Verify env c
       \<lparr>DNSName = [], Intermediates = set rest, Roots = rootCAs, CurrentTime = time_Now env\<rparr>)"
proof (cases "loadCA env ca")
  case (Inl err)
  with assms(1) show ?thesis by (simp add: getClientTLSConfig_def)
next
  case (Inr rootCAs)
  with assms(1,2) have v: "verify = verifyConnection env rootCAs False"
    by (auto simp: getClientTLSConfig_def Let_def split: if_splits)
  from assms(3,4) obtain c rest where chain: "PeerCertificates cs = map Some (c # rest)"
    using nil_free_chain [of "PeerCertificates cs"]
    by (cases "map the (PeerCertificates cs)") auto
  have "verify cs = Returns (x509_Verify env c
       \<lparr>DNSName = [], Intermediates = set rest, Roots = rootCAs, CurrentTime = time_Now env\<rparr>)"
    using addIntermediates_chain [of c rest] chain
    by (simp add: v verifyConnection_def Let_def)
  with Inr chain show ?thesis by blast
qed

theorem verifier_returns_on_nonempty_chain_witness:
  "getClientTLSConfig exampleEnv ''10.0.0.1:443'' ''ca.pem'' False =
     Inr \<lparr>ServerName = [], RootCAs = None, InsecureSkipVerify = True,
          VerifyConnection = Some (verifyConnection exampleEnv (Some {''rootCA''}) False)\<rparr> \<and>
   PeerCertificates \<lparr>PeerCertificates = [Some ''forged'', Some ''mid''], csServerName = []\<rparr> \<noteq> [] \<and>
   None \<notin> set (PeerCertificates
              \<lparr>PeerCertificates = [Some ''forged'', Some ''mid''], csServerName = []\<rparr>) \<and>
   verifyConnection exampleEnv (Some {''rootCA''}) False
       \<lparr>PeerCertificates = [Some ''forged'', Some ''mid''], csServerName = []\<rparr> =
     Returns (Some ''certificate signed by unknown authority'')"
proof -
  let ?cs = "\<lparr>PeerCertificates = [Some ''forged'', Some ''mid''], csServerName = []\<rparr>"
  have ne: "PeerCertificates ?cs \<noteq> []" and nn: "None \<notin> set (PeerCertificates ?cs)"
    by simp_all
  have v: "x509_Verify exampleEnv ''forged'' opts = Some ''certificate signed by unknown authority''"
    for opts by (simp add: exampleEnv_def)
  from verifier_returns_on_nonempty_chain [OF example_IP_config _ ne nn,
      of "verifyConnection exampleEnv (Some {''rootCA''}) False"]
  have "verifyConnection exampleEnv (Some {''rootCA''}) False ?cs =
     Returns (Some ''certificate signed by unknown authority'')"
    using v by auto
  with example_IP_config ne nn show ?thesis by simp
qed

text \<open>
  C10. An empty CA path loads to the \<^verbatim>\<open>nil\<close> pool with no error, and the TLS
  configuration is then built, never refused: for a domain name its \<open>RootCAs\<close> is \<^verbatim>\<open>nil\<close>,
  for an IP literal the manual verifier is installed with \<^verbatim>\<open>nil\<close> roots.
\<close>

theorem loadCA_empty_path:
  "loadCA env [] = Inr None \<and>
   getClientTLSConfig env addr [] skipVerify =
     (if net_ParseIP env (fst (net_SplitHostPort env addr)) \<noteq> None
      then Inr \<lparr>ServerName = [], RootCAs = None, InsecureSkipVerify = True,
                VerifyConnection = Some (verifyConnection env None skipVerify)\<rparr>
      else Inr \<lparr>ServerName = fst (net_SplitHostPort env addr), RootCAs = None,
                InsecureSkipVerify = skipVerify, VerifyConnection = None\<rparr>)"
  by (simp add: loadCA_def getClientTLSConfig_def Let_def)

theorem loadCA_empty_path_witness:
  "loadCA exampleEnv [] = Inr None \<and>
   getClientTLSConfig exampleEnv ''example.com:443'' [] False =
     Inr \<lparr>ServerName = ''example.com'', RootCAs = None,
          InsecureSkipVerify = False, VerifyConnection = None\<rparr>"
  using loadCA_empty_path [of exampleEnv "''example.com:443''" False] example_hosts
  by simp

section \<open>Properties of the SSH configuration\<close>

lemma getClientSSHConfit_example:
  "getClientSSHConfit exampleEnv ''alice'' ''pw'' ''id_rsa'' ''secret'' =
     Inr \<lparr>User = ''alice'', Auth = [Password ''pw'', PublicKeys 2],
          HostKeyCallback = Some InsecureIgnoreHostKey\<rparr>"
  by (simp add: getClientSSHConfit_def Let_def exampleEnv_def)

lemma getClientSSHConfit_examples:
  "getClientSSHConfit exampleEnv ''alice'' ''pw'' [] [] =
     Inr \<lparr>User = ''alice'', Auth = [Password ''pw''],
          HostKeyCallback = Some InsecureIgnoreHostKey\<rparr>"
  "getClientSSHConfit exampleEnv [] [] ''id_rsa'' [] =
     Inr \<lparr>User = [], Auth = [PublicKeys 1], HostKeyCallback = Some InsecureIgnoreHostKey\<rparr>"
  "getClientSSHConfit exampleEnv [] [] [] [] =
     Inr \<lparr>User = [], Auth = [], HostKeyCallback = Some InsecureIgnoreHostKey\<rparr>"
  by (simp_all add: getClientSSHConfit_def Let_def exampleEnv_def)

lemma getClientSSHConfit_callback:
  "getClientSSHConfit env username password key passphrase = Inr conf \<Longrightarrow>
   HostKeyCallback conf = Some InsecureIgnoreHostKey"
  by (auto simp: getClientSSHConfit_def Let_def split: if_splits sum.splits)

lemma getClientSSHConfit_no_key:
  "key = [] \<Longrightarrow>
   getClientSSHConfit env username password key passphrase =
     Inr \<lparr>User = (if username \<noteq> [] \<and> password \<noteq> [] then username else []),
          Auth = (if username \<noteq> [] \<and> password \<noteq> [] then [Password password] else []),
          HostKeyCallback = Some InsecureIgnoreHostKey\<rparr>"
  by (simp add: getClientSSHConfit_def Let_def)

lemma getClientSSHConfit_unread:
  "key \<noteq> [] \<Longrightarrow> os_ReadFile env key = Inl err \<Longrightarrow>
   getClientSSHConfit env username password key passphrase = Inl err"
  by (simp add: getClientSSHConfit_def Let_def)

lemma getClientSSHConfit_unparsed:
  "key \<noteq> [] \<Longrightarrow> os_ReadFile env key = Inr pemBytes \<Longrightarrow>
   (if passphrase \<noteq> []
    then ssh_ParsePrivateKeyWithPassphrase env pemBytes (bytesOf passphrase)
    else ssh_ParsePrivateKey env pemBytes) = Inl err \<Longrightarrow>
   getClientSSHConfit env username password key passphrase = Inl err"
  by (cases "passphrase = []") (simp_all add: getClientSSHConfit_def Let_def)

lemma getClientSSHConfit_parsed:
  "key \<noteq> [] \<Longrightarrow> os_ReadFile env key = Inr pemBytes \<Longrightarrow>
   (if passphrase \<noteq> []
    then ssh_ParsePrivateKeyWithPassphrase env pemBytes (bytesOf passphrase)
    else ssh_ParsePrivateKey env pemBytes) = Inr signer \<Longrightarrow>
   getClientSSHConfit env username password key passphrase =
     Inr \<lparr>User = (if username \<noteq> [] \<and> password \<noteq> [] then username else []),
          Auth = (if username \<noteq> [] \<and> password \<noteq> [] then [Password password] else [])
                 @ [PublicKeys signer],
          HostKeyCallback = Some InsecureIgnoreHostKey\<rparr>"
  by (cases "passphrase = []") (simp_all add: getClientSSHConfit_def Let_def)

lemma getClientSSHConfit_returned:
  assumes "getClientSSHConfit env username password key passphrase = Inr conf"
  shows "((\<exists>pw. Password pw \<in> set (Auth conf)) \<longleftrightarrow> username \<noteq> [] \<and> password \<noteq> []) \<and>
      (\<forall>pw. Password pw \<in> set (Auth conf) \<longrightarrow> pw = password) \<and>
      User conf = (if username \<noteq> [] \<and> password \<noteq> [] then username else []) \<and>
      ((\<exists>signer. PublicKeys signer \<in> set (Auth conf)) \<longleftrightarrow> key \<noteq> []) \<and>
      (\<forall>signer. PublicKeys signer \<in> set (Auth conf) \<longrightarrow>
         (\<exists>pemBytes. os_ReadFile env key = Inr pemBytes \<and>
            (if passphrase \<noteq> []
             then ssh_ParsePrivateKeyWithPassphrase env pemBytes (bytesOf passphrase)
             else ssh_ParsePrivateKey env pemBytes) = Inr signer))"
proof (cases "key = []")
  case True
  from assms getClientSSHConfit_no_key [OF True, of env username password passphrase]
  have "conf = \<lparr>User = (if username \<noteq> [] \<and> password \<noteq> [] then username else []),
          Auth = (if username \<noteq> [] \<and> password \<noteq> [] then [Password password] else []),
          HostKeyCallback = Some InsecureIgnoreHostKey\<rparr>"
    by simp
  with True show ?thesis by simp
next
  case False
  show ?thesis
  proof (cases "os_ReadFile env key")
    case (Inl err)
    with assms getClientSSHConfit_unread [OF False Inl, of username password passphrase]
    show ?thesis by simp
  next
    case (Inr pemBytes)
    let ?parse = "if passphrase \<noteq> []
       then ssh_ParsePrivateKeyWithPassphrase env pemBytes (bytesOf passphrase)
       else ssh_ParsePrivateKey env pemBytes"
    show ?thesis
    proof (cases ?parse)
      case (Inl err)
      with assms getClientSSHConfit_unparsed [OF False Inr Inl, of username password]
      show ?thesis by simp
    next
      case parsed: (Inr signer)
      from assms getClientSSHConfit_parsed [OF False Inr parsed, of username password]
      have "conf = \<lparr>User = (if username \<noteq> [] \<and> password \<noteq> [] then username else []),
          Auth = (if username \<noteq> [] \<and> password \<noteq> [] then [Password password] else [])
                 @ [PublicKeys signer],
          HostKeyCallback = Some InsecureIgnoreHostKey\<rparr>"
        by simp
      with False Inr parsed show ?thesis by simp
    qed
  qed
qed

text \<open>
  C5, as the code has it. The claim calls the host-key policy configurable. It is not:
  whatever the environment, the user name, the password, the key path and the
  passphrase, no returned configuration carries a callback other than
  \<^verbatim>\<open>ssh.InsecureIgnoreHostKey()\<close>. Two configurations built from different settings, one
  with a password and one with a key, carry the same callback.
\<close>

theorem host_key_policy_not_configurable:
  "getClientSSHConfit exampleEnv ''alice'' ''pw'' [] [] =
     Inr \<lparr>User = ''alice'', Auth = [Password ''pw''],
          HostKeyCallback = Some InsecureIgnoreHostKey\<rparr> \<and>
   getClientSSHConfit exampleEnv [] [] ''id_rsa'' [] =
     Inr \<lparr>User = [], Auth = [PublicKeys 1], HostKeyCallback = Some InsecureIgnoreHostKey\<rparr> \<and>
   \<not> (\<exists>(env :: nat clientEnv) username password key passphrase conf.
        getClientSSHConfit env username password key passphrase = Inr conf \<and>
        HostKeyCallback conf \<noteq> Some InsecureIgnoreHostKey)"
  using getClientSSHConfit_examples(1,2) getClientSSHConfit_callback by blast

text \<open>
  C5, amended. The host-key policy is fixed: every SSH client configuration that
  \<^verbatim>\<open>getClientSSHConfit\<close> returns carries the callback \<^verbatim>\<open>ssh.InsecureIgnoreHostKey()\<close>, and
  that callback accepts every host key, returning \<^verbatim>\<open>nil\<close> for every host name, remote
  address and key. A configuration is returned whenever no key path is given, and
  whenever the key file is read and parsed.
\<close>

theorem host_key_accept_all:
  "(\<forall>conf. getClientSSHConfit env username password key passphrase = Inr conf \<longrightarrow>
      HostKeyCallback conf = Some InsecureIgnoreHostKey) \<and>
   (\<forall>hostname remote hostKey. InsecureIgnoreHostKey hostname remote hostKey = None) \<and>
   (key = [] \<longrightarrow>
      (\<exists>conf. getClientSSHConfit env username password key passphrase = Inr conf)) \<and>
   (\<forall>pemBytes signer.
      key \<noteq> [] \<and> os_ReadFile env key = Inr pemBytes \<and>
      (if passphrase \<noteq> []
       then ssh_ParsePrivateKeyWithPassphrase env pemBytes (bytesOf passphrase)
       else ssh_ParsePrivateKey env pemBytes) = Inr signer \<longrightarrow>
      (\<exists>conf. getClientSSHConfit env username password key passphrase = Inr conf))"
  using getClientSSHConfit_callback [of env username password key passphrase]
    getClientSSHConfit_no_key [of key env username password passphrase]
    getClientSSHConfit_parsed [of key env _ passphrase _ username password]
  by (simp add: InsecureIgnoreHostKey_def)

theorem host_key_accept_all_witness:
  "getClientSSHConfit exampleEnv ''alice'' ''pw'' ''id_rsa'' ''secret'' =
     Inr \<lparr>User = ''alice'', Auth = [Password ''pw'', PublicKeys 2],
          HostKeyCallback = Some InsecureIgnoreHostKey\<rparr> \<and>
   HostKeyCallback \<lparr>User = ''alice'', Auth = [Password ''pw'', PublicKeys (2::nat)],
          HostKeyCallback = Some InsecureIgnoreHostKey\<rparr> = Some InsecureIgnoreHostKey \<and>
   InsecureIgnoreHostKey ''example.com'' ''10.0.0.1:22'' [1, 2, 3] = None \<and>
   (\<exists>conf. getClientSSHConfit exampleEnv ''alice'' ''pw'' [] [] = Inr conf \<and>
      HostKeyCallback conf = Some InsecureIgnoreHostKey)"
proof -
  note t1 = host_key_accept_all [of exampleEnv "''alice''" "''pw''" "''id_rsa''" "''secret''"]
  note t2 = host_key_accept_all [of exampleEnv "''alice''" "''pw''" "[]" "[]"]
  from t2 obtain conf where
    c: "getClientSSHConfit exampleEnv ''alice'' ''pw'' [] [] = Inr conf" by blast
  with t2 have "HostKeyCallback conf = Some InsecureIgnoreHostKey" by blast
  with c t1 getClientSSHConfit_example show ?thesis by auto
qed

text \<open>
  C6. A configuration is returned whenever no key path is given, and whenever the key
  file is read and parsed; it is then exactly this: the user name is the configured one
  when user name and password are both non-empty and empty otherwise; the methods are the
  password method, with the configured password, exactly in that same case, followed by
  the public-key method exactly when a key path is given, whose signer is what the key
  file parses to, with the passphrase when one is configured and without otherwise. So
  password only, key only, both and neither are all served. When the key file cannot be
  read, or is read but does not parse, that error is returned and no configuration.
\<close>

theorem getClientSSHConfit_auth:
  "(\<forall>conf. getClientSSHConfit env username password key passphrase = Inr conf \<longrightarrow>
      ((\<exists>pw. Password pw \<in> set (Auth conf)) \<longleftrightarrow> username \<noteq> [] \<and> password \<noteq> []) \<and>
      (\<forall>pw. Password pw \<in> set (Auth conf) \<longrightarrow> pw = password) \<and>
      User conf = (if username \<noteq> [] \<and> password \<noteq> [] then username else []) \<and>
      ((\<exists>signer. PublicKeys signer \<in> set (Auth conf)) \<longleftrightarrow> key \<noteq> []) \<and>
      (\<forall>signer. PublicKeys signer \<in> set (Auth conf) \<longrightarrow>
         (\<exists>pemBytes. os_ReadFile env key = Inr pemBytes \<and>
            (if passphrase \<noteq> []
             then ssh_ParsePrivateKeyWithPassphrase env pemBytes (bytesOf passphrase)
             else ssh_ParsePrivateKey env pemBytes) = Inr signer))) \<and>
   (\<forall>pemBytes err.
      key \<noteq> [] \<and> os_ReadFile env key = Inr pemBytes \<and>
      (if passphrase \<noteq> []
       then ssh_ParsePrivateKeyWithPassphrase env pemBytes (bytesOf passphrase)
       else ssh_ParsePrivateKey env pemBytes) = Inl err \<longrightarrow>
      getClientSSHConfit env username password key passphrase = Inl err) \<and>
   (\<forall>err.
      key \<noteq> [] \<and> os_ReadFile env key = Inl err \<longrightarrow>
      getClientSSHConfit env username password key passphrase = Inl err) \<and>
   (key = [] \<longrightarrow>
      getClientSSHConfit env username password key passphrase =
        Inr \<lparr>User = (if username \<noteq> [] \<and> password \<noteq> [] then username else []),
             Auth = (if username \<noteq> [] \<and> password \<noteq> [] then [Password password] else []),
             HostKeyCallback = Some InsecureIgnoreHostKey\<rparr>) \<and>
   (\<forall>pemBytes signer.
      key \<noteq> [] \<and> os_ReadFile env key = Inr pemBytes \<and>
      (if passphrase \<noteq> []
       then ssh_ParsePrivateKeyWithPassphrase env pemBytes (bytesOf passphrase)
       else ssh_ParsePrivateKey env pemBytes) = Inr signer \<longrightarrow>
      getClientSSHConfit env username password key passphrase =
        Inr \<lparr>User = (if username \<noteq> [] \<and> password \<noteq> [] then username else []),
             Auth = (if username \<noteq> [] \<and> password \<noteq> [] then [Password password] else [])
                    @ [PublicKeys signer],
             HostKeyCallback = Some InsecureIgnoreHostKey\<rparr>)"
proof (intro conjI)
  show "\<forall>conf. getClientSSHConfit env username password key passphrase = Inr conf \<longrightarrow>
      ((\<exists>pw. Password pw \<in> set (Auth conf)) \<longleftrightarrow> username \<noteq> [] \<and> password \<noteq> []) \<and>
      (\<forall>pw. Password pw \<in> set (Auth conf) \<longrightarrow> pw = password) \<and>
      User conf = (if username \<noteq> [] \<and> password \<noteq> [] then username else []) \<and>
      ((\<exists>signer. PublicKeys signer \<in> set (Auth conf)) \<longleftrightarrow> key \<noteq> []) \<and>
      (\<forall>signer. PublicKeys signer \<in> set (Auth conf) \<longrightarrow>
         (\<exists>pemBytes. os_ReadFile env key = Inr pemBytes \<and>
            (if passphrase \<noteq> []
             then ssh_ParsePrivateKeyWithPassphrase env pemBytes (bytesOf passphrase)
             else ssh_ParsePrivateKey env pemBytes) = Inr signer))"
    by (intro allI impI) (rule getClientSSHConfit_returned)
  show "\<forall>pemBytes err.
      key \<noteq> [] \<and> os_ReadFile env key = Inr pemBytes \<and>
      (if passphrase \<noteq> []
       then ssh_ParsePrivateKeyWithPassphrase env pemBytes (bytesOf passphrase)
       else ssh_ParsePrivateKey env pemBytes) = Inl err \<longrightarrow>
      getClientSSHConfit env username password key passphrase = Inl err"
    by (intro allI impI) (elim conjE, rule getClientSSHConfit_unparsed, assumption+)
  show "\<forall>err.
      key \<noteq> [] \<and> os_ReadFile env key = Inl err \<longrightarrow>
      getClientSSHConfit env username password key passphrase = Inl err"
    by (intro allI impI) (elim conjE, rule getClientSSHConfit_unread, assumption+)
  show "key = [] \<longrightarrow>
      getClientSSHConfit env username password key passphrase =
        Inr \<lparr>User = (if username \<noteq> [] \<and> password \<noteq> [] then username else []),
             Auth = (if username \<noteq> [] \<and> password \<noteq> [] then [Password password] else []),
             HostKeyCallback = Some InsecureIgnoreHostKey\<rparr>"
    by (intro impI) (rule getClientSSHConfit_no_key)
  show "\<forall>pemBytes signer.
      key \<noteq> [] \<and> os_ReadFile env key = Inr pemBytes \<and>
      (if passphrase \<noteq> []
       then ssh_ParsePrivateKeyWithPassphrase env pemBytes (bytesOf passphrase)
       else ssh_ParsePrivateKey env pemBytes) = Inr signer \<longrightarrow>
      getClientSSHConfit env username password key passphrase =
        Inr \<lparr>User = (if username \<noteq> [] \<and> password \<noteq> [] then username else []),
             Auth = (if username \<noteq> [] \<and> password \<noteq> [] then [Password password] else [])
                    @ [PublicKeys signer],
             HostKeyCallback = Some InsecureIgnoreHostKey\<rparr>"
    by (intro allI impI) (elim conjE, rule getClientSSHConfit_parsed, assumption+)
qed


theorem getClientSSHConfit_auth_witness:
  "getClientSSHConfit exampleEnv ''alice'' ''pw'' [] [] =
     Inr \<lparr>User = ''alice'', Auth = [Password ''pw''],
          HostKeyCallback = Some InsecureIgnoreHostKey\<rparr> \<and>
   getClientSSHConfit exampleEnv [] [] [] [] =
     Inr \<lparr>User = [], Auth = [], HostKeyCallback = Some InsecureIgnoreHostKey\<rparr> \<and>
   os_ReadFile exampleEnv ''id_rsa'' = Inr [7] \<and>
   ssh_ParsePrivateKey exampleEnv [7] = Inr 1 \<and>
   getClientSSHConfit exampleEnv [] [] ''id_rsa'' [] =
     Inr \<lparr>User = [], Auth = [PublicKeys 1], HostKeyCallback = Some InsecureIgnoreHostKey\<rparr> \<and>
   ssh_ParsePrivateKeyWithPassphrase exampleEnv [7] (bytesOf ''secret'') = Inr 2 \<and>
   getClientSSHConfit exampleEnv ''alice'' ''pw'' ''id_rsa'' ''secret'' =
     Inr \<lparr>User = ''alice'', Auth = [Password ''pw'', PublicKeys 2],
          HostKeyCallback = Some InsecureIgnoreHostKey\<rparr> \<and>
   ssh_ParsePrivateKeyWithPassphrase exampleEnv [7] (bytesOf ''wrong'') =
     Inl ''x509: decryption password incorrect'' \<and>
   getClientSSHConfit exampleEnv ''alice'' ''pw'' ''id_rsa'' ''wrong'' =
     Inl ''x509: decryption password incorrect'' \<and>
   os_ReadFile exampleEnv ''lost'' = Inl ''no such file'' \<and>
   getClientSSHConfit exampleEnv ''alice'' ''pw'' ''lost'' [] = Inl ''no such file''"
proof -
  have rd: "os_ReadFile exampleEnv ''id_rsa'' = Inr [7]"
    and lost: "os_ReadFile exampleEnv ''lost'' = Inl ''no such file''"
    and plain: "ssh_ParsePrivateKey exampleEnv [7] = Inr 1"
    and ok: "ssh_ParsePrivateKeyWithPassphrase exampleEnv [7] (bytesOf ''secret'') = Inr 2"
    by (simp_all add: exampleEnv_def)
  have bad: "ssh_ParsePrivateKeyWithPassphrase exampleEnv [7] (bytesOf ''wrong'') =
     Inl ''x509: decryption password incorrect''"
    by (simp add: exampleEnv_def bytesOf_def)
  note unparsed = getClientSSHConfit_auth [THEN conjunct2, THEN conjunct1, rule_format]
  note unread = getClientSSHConfit_auth [THEN conjunct2, THEN conjunct2, THEN conjunct1, rule_format]
  note no_key = getClientSSHConfit_auth
    [THEN conjunct2, THEN conjunct2, THEN conjunct2, THEN conjunct1, rule_format]
  note parsed = getClientSSHConfit_auth
    [THEN conjunct2, THEN conjunct2, THEN conjunct2, THEN conjunct2, rule_format]
  have "getClientSSHConfit exampleEnv ''alice'' ''pw'' [] [] =
     Inr \<lparr>User = ''alice'', Auth = [Password ''pw''],
          HostKeyCallback = Some InsecureIgnoreHostKey\<rparr>"
    using no_key [of "[]" exampleEnv "''alice''" "''pw''" "[]"] by simp
  moreover have "getClientSSHConfit exampleEnv [] [] [] [] =
     Inr \<lparr>User = [], Auth = [], HostKeyCallback = Some InsecureIgnoreHostKey\<rparr>"
    using no_key [of "[]" exampleEnv "[]" "[]" "[]"] by simp
  moreover have "getClientSSHConfit exampleEnv [] [] ''id_rsa'' [] =
     Inr \<lparr>User = [], Auth = [PublicKeys 1], HostKeyCallback = Some InsecureIgnoreHostKey\<rparr>"
    using parsed [of "''id_rsa''" exampleEnv "[7]" "[]" 1 "[]" "[]"] rd plain by simp
  moreover have "getClientSSHConfit exampleEnv ''alice'' ''pw'' ''id_rsa'' ''secret'' =
     Inr \<lparr>User = ''alice'', Auth = [Password ''pw'', PublicKeys 2],
          HostKeyCallback = Some InsecureIgnoreHostKey\<rparr>"
    using parsed [of "''id_rsa''" exampleEnv "[7]" "''secret''" 2 "''alice''" "''pw''"] rd ok
    by simp
  moreover have "getClientSSHConfit exampleEnv ''alice'' ''pw'' ''id_rsa'' ''wrong'' =
     Inl ''x509: decryption password incorrect''"
    using unparsed [of "''id_rsa''" exampleEnv "[7]" "''wrong''"
        "''x509: decryption password incorrect''" "''alice''" "''pw''"] rd bad
    by simp
  moreover have "getClientSSHConfit exampleEnv ''alice'' ''pw'' ''lost'' [] = Inl ''no such file''"
    using unread [of "''lost''" exampleEnv "''no such file''" "''alice''" "''pw''" "[]"] lost
    by simp
  ultimately show ?thesis using rd lost plain ok bad by simp
qed

section \<open>Properties of launchClient\<close>

text \<open>
  C8. Whenever a configuration step of \<^verbatim>\<open>launchClient\<close> fails (the \<^verbatim>\<open>[client]\<close> table does
  not unmarshal; the \<^verbatim>\<open>users\<close> table does not unmarshal; the rule file does not load;
  the \<^verbatim>\<open>rules\<close> table does not unmarshal or its rules do not load; the TLS
  configuration, when the protocol needs TLS, fails; the SSH configuration, when the
  protocol is \<^verbatim>\<open>ssh\<close>, fails), the process ends with exit code 1, and it ends at that
  step: the message is not the one printed when serving fails, so \<^verbatim>\<open>cli.Serve\<close> was
  never called.
\<close>

theorem launchClient_config_error_exits:
  assumes "(\<exists>err. Unmarshal t = Inl err) \<or>
     (\<exists>config. Unmarshal t = Inr config \<and>
        ((\<exists>err. Get t ''users'' = TomlTree (Inl err)) \<or>
         (\<exists>rules err. Get t ''rules'' = TomlString rules \<and> NewRulesFromFile lenv rules = Inl err) \<or>
         (\<exists>err. Get t ''rules'' = TomlTree (Inl err)) \<or>
         (\<exists>m err. Get t ''rules'' = TomlTree (Inr m) \<and> NewRulesFromMap lenv m = Inl err) \<or>
         (needsTLS lenv (cfgServerProtocol config) \<and>
            (\<exists>err. getClientTLSConfig env (cfgServerAddr config) (cfgTLSCA config)
                      (cfgTLSSkipVerify config) = Inl err)) \<or>
         (cfgServerProtocol config = ''ssh'' \<and>
            (\<exists>err. getClientSSHConfit env (cfgUsername config) (cfgPassword config)
                      (cfgSSHKey config) (cfgSSHPassphrase config) = Inl err))))"
  shows "\<exists>format err. launchClient env lenv t = Exit 1 format err \<and>
           format \<noteq> ''Launch client failed: %s''"
  using assms
  apply (elim disjE exE conjE)
  apply (auto simp: launchClient_def parseConfig_def setUsers_def setRules_def setTLS_def setSSH_def log_Fatalf_def split: tomlValue.splits sum.splits)
  done


lemma example_TLS_fails:
  "getClientTLSConfig exampleEnv (cfgServerAddr exampleConfig) (cfgTLSCA exampleConfig)
     (cfgTLSSkipVerify exampleConfig) = Inl ''no such file''"
  by (simp add: getClientTLSConfig_def loadCA_def exampleConfig_def exampleEnv_def)

theorem launchClient_config_error_exits_witness:
  "Unmarshal exampleTree = Inr exampleConfig \<and>
   needsTLS exampleLaunchEnv (cfgServerProtocol exampleConfig) \<and>
   getClientTLSConfig exampleEnv (cfgServerAddr exampleConfig) (cfgTLSCA exampleConfig)
     (cfgTLSSkipVerify exampleConfig) = Inl ''no such file'' \<and>
   launchClient exampleEnv exampleLaunchEnv exampleTree =
     Exit 1 ''Get TLS configuration failed: %s'' ''no such file''"
proof -
  have u: "Unmarshal exampleTree = Inr exampleConfig"
    by (simp add: exampleTree_def)
  have n: "needsTLS exampleLaunchEnv (cfgServerProtocol exampleConfig)"
    by (simp add: exampleLaunchEnv_def exampleConfig_def)
  have "\<exists>format err. launchClient exampleEnv exampleLaunchEnv exampleTree = Exit 1 format err \<and>
           format \<noteq> ''Launch client failed: %s''"
    by (rule launchClient_config_error_exits) (use u n example_TLS_fails in blast)
  moreover have "launchClient exampleEnv exampleLaunchEnv exampleTree =
     Exit 1 ''Get TLS configuration failed: %s'' ''no such file''"
    using example_TLS_fails
    by (simp add: launchClient_def parseConfig_def setUsers_def setRules_def setTLS_def
        exampleTree_def exampleLaunchEnv_def log_Fatalf_def
        exampleConfig_def [THEN arg_cong, of cfgServerProtocol])
  ultimately show ?thesis using u n example_TLS_fails by simp
qed

section \<open>Properties of the WebSocket stripper\<close>

subsection \<open>The handshake\<close>

lemma handshake_skips_rejected:
  "\<forall>r\<in>set rs. rejected (WSPath w) r \<Longrightarrow> ioBuf w = map Inr rs @- s \<Longrightarrow>
   handshake env w =
     handshake env (w\<lparr>ioBuf := s, Conn := Conn w @ replicate (length rs) http404Response\<rparr>)"
proof (induction rs arbitrary: w)
  case Nil
  then have "w\<lparr>ioBuf := s\<rparr> = w" by (cases w) simp
  then show ?case by simp
next
  case (Cons r rs)
  let ?w = "w\<lparr>ioBuf := stl (ioBuf w), Conn := Conn w @ [http404Response]\<rparr>"
  from Cons.prems have step: "handshake env w = handshake env ?w"
    by (subst handshake.simps) simp
  from Cons.prems have "\<forall>r\<in>set rs. rejected (WSPath ?w) r" and "ioBuf ?w = map Inr rs @- s"
    by simp_all
  then have "handshake env ?w =
     handshake env (?w\<lparr>ioBuf := s, Conn := Conn ?w @ replicate (length rs) http404Response\<rparr>)"
    by (rule Cons.IH)
  with step show ?case by (simp add: replicate_append_same)
qed

lemma headerTokens_examples:
  "headerTokens ''keep-alive, Upgrade'' = [''keep-alive'', ''upgrade'']"
  "headerTokens ''Upgrade'' = [''upgrade'']"
  "headerTokens ''websocket'' = [''websocket'']"
  by (simp_all add: headerTokens_def trimBlanks_def asciiLower_def)

lemma accepted_carries_upgrade_headers:
  "\<not> rejected path req \<Longrightarrow> URL_Path req = path \<and> carriesUpgradeHeaders req"
  by (simp add: rejected_def carriesUpgradeHeaders_def headerTokens_examples)

text \<open>
  C2, as the code has it. The claim says that the first request that matches the path
  and carries the upgrade headers proceeds to the upgrade. A request for the configured
  path with \<^verbatim>\<open>Connection: keep-alive, Upgrade\<close> and \<^verbatim>\<open>Upgrade: websocket\<close> matches the path
  and carries the upgrade headers, yet the handshake answers it with 404 and reads on:
  it never reaches the upgrade, and returns the error of the next read.
\<close>

theorem handshake_rejects_token_list_upgrade:
  "URL_Path tokenListRequest = WSPath browserStripper \<and>
   carriesUpgradeHeaders tokenListRequest \<and>
   handshake exampleServerEnv browserStripper =
     Some (Inl ''EOF'',
           \<lparr>Conn = [http404Response], WSPath = ''/chat'', buf = [],
            ioBuf = sconst (Inl ''EOF''), wsConn = None\<rparr>)"
proof -
  have "URL_Path tokenListRequest = WSPath browserStripper"
    by (simp add: tokenListRequest_def browserStripper_def newWSStripper_def)
  moreover have "carriesUpgradeHeaders tokenListRequest"
    by (simp add: carriesUpgradeHeaders_def tokenListRequest_def Header_Get_def
        headerTokens_examples)
  moreover have "rejected ''/chat'' tokenListRequest"
    by (simp add: rejected_def tokenListRequest_def Header_Get_def)
  then have "handshake exampleServerEnv browserStripper =
     Some (Inl ''EOF'',
           \<lparr>Conn = [http404Response], WSPath = ''/chat'', buf = [],
            ioBuf = sconst (Inl ''EOF''), wsConn = None\<rparr>)"
    by (subst handshake.simps, subst handshake.simps)
       (simp add: browserStripper_def newWSStripper_def)
  ultimately show ?thesis by simp
qed

text \<open>
  C2, amended. The handshake compares the first value of each header with one literal.
  Let the requests that arrive be any number of requests that it rejects (the path is
  not the configured one, or the \<^verbatim>\<open>Connection\<close> header is not exactly \<^verbatim>\<open>Upgrade\<close>, or the
  \<^verbatim>\<open>Upgrade\<close> header is not exactly \<^verbatim>\<open>websocket\<close>), followed by one with the configured
  path and exactly these two header values. Then the handshake returns; it has written
  one 404 response per rejected request on the connection and gone on reading the same
  connection each time; the first accepted request is the one handed to the WebSocket
  upgrade, whose result is the handshake's; the requests after it are left unread.
\<close>

theorem handshake_404_until_upgrade:
  assumes "ioBuf w = map Inr rs @- (Inr req ## rest)"
    and "\<forall>r\<in>set rs. rejected (WSPath w) r"
    and "URL_Path req = WSPath w"
    and "Header_Get (Header req) ''Connection'' = ''Upgrade''"
    and "Header_Get (Header req) ''Upgrade'' = ''websocket''"
  shows "handshake env w =
     Some (fst (Upgrade env (Conn w @ replicate (length rs) http404Response) req),
           w\<lparr>ioBuf := rest,
             Conn := snd (Upgrade env (Conn w @ replicate (length rs) http404Response) req)\<rparr>)"
proof -
  let ?w = "w\<lparr>ioBuf := Inr req ## rest, Conn := Conn w @ replicate (length rs) http404Response\<rparr>"
  from assms(2,1) have "handshake env w = handshake env ?w"
    by (rule handshake_skips_rejected)
  also from assms(3-5) have "\<dots> =
     Some (fst (Upgrade env (Conn ?w) req),
           ?w\<lparr>ioBuf := rest, Conn := snd (Upgrade env (Conn ?w) req)\<rparr>)"
    by (subst handshake.simps) (simp add: rejected_def split: prod.splits)
  finally show ?thesis by simp
qed

theorem handshake_404_until_upgrade_witness:
  "ioBuf exampleStripper =
     map Inr [upgradeRequest ''/wrong''] @- (Inr (upgradeRequest ''/chat'') ## sconst (Inl ''EOF'')) \<and>
   rejected (WSPath exampleStripper) (upgradeRequest ''/wrong'') \<and>
   URL_Path (upgradeRequest ''/chat'') = WSPath exampleStripper \<and>
   Header_Get (Header (upgradeRequest ''/chat'')) ''Connection'' = ''Upgrade'' \<and>
   Header_Get (Header (upgradeRequest ''/chat'')) ''Upgrade'' = ''websocket'' \<and>
   handshake exampleServerEnv exampleStripper =
     Some (Inr exampleWS, upgradedStripper\<lparr>wsConn := None\<rparr>)"
proof -
  have io: "ioBuf exampleStripper =
     map Inr [upgradeRequest ''/wrong''] @- (Inr (upgradeRequest ''/chat'') ## sconst (Inl ''EOF''))"
    by (simp add: exampleStripper_def newWSStripper_def)
  have rej: "\<forall>r\<in>set [upgradeRequest ''/wrong'']. rejected (WSPath exampleStripper) r"
    by (simp add: rejected_def exampleStripper_def newWSStripper_def upgradeRequest_def)
  have path: "URL_Path (upgradeRequest ''/chat'') = WSPath exampleStripper"
    by (simp add: exampleStripper_def newWSStripper_def upgradeRequest_def)
  have conn: "Header_Get (Header (upgradeRequest ''/chat'')) ''Connection'' = ''Upgrade''"
    by (simp add: upgradeRequest_def Header_Get_def)
  have upg: "Header_Get (Header (upgradeRequest ''/chat'')) ''Upgrade'' = ''websocket''"
    by (simp add: upgradeRequest_def Header_Get_def)
  from handshake_404_until_upgrade [OF io rej path conn upg, of exampleServerEnv]
  have "handshake exampleServerEnv exampleStripper =
     Some (Inr exampleWS, upgradedStripper\<lparr>wsConn := None\<rparr>)"
    by (simp add: exampleServerEnv_def exampleStripper_def newWSStripper_def
        upgradedStripper_def)
  with io rej path conn upg show ?thesis by simp
qed

subsection \<open>Read\<close>

lemma Read_staged:
  assumes "wsConn w = Some c" and "buf w \<noteq> []"
  shows "Read env w b =
     Some ((min (length b) (length (buf w)), None,
            take (min (length b) (length (buf w))) (buf w) @
            drop (min (length b) (length (buf w))) b),
           w\<lparr>buf := drop (min (length b) (length (buf w))) (buf w)\<rparr>)"
  using assms
  by (simp add: Read_def ensureWSConn_def Buffer_Len_def Buffer_Read_def copy_bytes_def Let_def)

lemma Read_message:
  assumes "wsConn w = Some c" and "buf w = []" and "shd (incoming c) = Inr (messageType, p)"
  shows "Read env w b =
     Some ((min (length b) (length p), None,
            take (min (length b) (length p)) p @ drop (min (length b) (length p)) b),
           w\<lparr>wsConn := Some (c\<lparr>incoming := stl (incoming c),
                                received := received c @ [(messageType, p)]\<rparr>),
             buf := drop (min (length b) (length p)) p\<rparr>)"
  using assms
  by (simp add: Read_def ensureWSConn_def Buffer_Len_def ReadMessage_def copy_bytes_def
      Buffer_Write_def Let_def)

lemma Read_failed:
  assumes "wsConn w = Some c" and "buf w = []" and "shd (incoming c) = Inl err"
  shows "Read env w b =
     Some ((0, Some err, b), w\<lparr>wsConn := Some (c\<lparr>incoming := stl (incoming c)\<rparr>)\<rparr>)"
  using assms
  by (simp add: Read_def ensureWSConn_def Buffer_Len_def ReadMessage_def)

lemma Read_keeps_stream:
  assumes "wsConn w = Some c" and "payloads (received c) = returned @ buf w"
  shows "\<exists>n err b' w' c'. Read env w b = Some ((n, err, b'), w') \<and> wsConn w' = Some c' \<and>
           payloads (received c') = returned @ take n b' @ buf w'"
proof (cases "buf w = []")
  case False
  with assms show ?thesis
    by (simp add: Read_staged [OF assms(1) False] min_def)
next
  case True
  show ?thesis
  proof (cases "shd (incoming c)")
    case (Inl err)
    with assms True show ?thesis
      by (simp add: Read_failed [OF assms(1) True Inl])
  next
    case (Inr m)
    obtain messageType p where m: "m = (messageType, p)" by (cases m)
    with assms True Inr show ?thesis
      by (simp add: Read_message [OF assms(1) True Inr [unfolded m]] payloads_def min_def)
  qed
qed

lemma Reads_keep_stream:
  "wsConn w = Some c \<Longrightarrow> payloads (received c) = returned @ buf w \<Longrightarrow>
   \<exists>chunks w' c'. Reads env w bs = Some (chunks, w') \<and> wsConn w' = Some c' \<and>
     length chunks = length bs \<and>
     payloads (received c') = returned @ concat chunks @ buf w'"
proof (induction bs arbitrary: w c returned)
  case Nil
  then show ?case by simp
next
  case (Cons b bs)
  from Read_keeps_stream [OF Cons.prems, of env b]
  obtain n err b' w1 c1 where r: "Read env w b = Some ((n, err, b'), w1)"
    and c1: "wsConn w1 = Some c1"
    and p1: "payloads (received c1) = (returned @ take n b') @ buf w1"
    by auto
  from Cons.IH [OF c1 p1]
  obtain chunks w' c' where "Reads env w1 bs = Some (chunks, w')" "wsConn w' = Some c'"
    "length chunks = length bs"
    "payloads (received c') = (returned @ take n b') @ concat chunks @ buf w'"
    by blast
  with r show ?case by simp
qed

lemma Read_after_handshake:
  assumes "ensureWSConn env w0 = Some (Inr c, w)"
  shows "wsConn w = Some c \<and> Read env w0 b = Read env w b"
proof -
  from assms have c: "wsConn w = Some c"
    by (auto simp: ensureWSConn_def split: option.splits sum.splits)
  then have "ensureWSConn env w = Some (Inr c, w)"
    by (simp add: ensureWSConn_def)
  with assms c show ?thesis by (simp add: Read_def)
qed

lemma example_handshake:
  "handshake exampleServerEnv exampleStripper =
     Some (Inr exampleWS, upgradedStripper\<lparr>wsConn := None\<rparr>)"
  by (subst handshake.simps, subst handshake.simps)
     (simp add: exampleStripper_def newWSStripper_def rejected_def upgradeRequest_def
        Header_Get_def exampleServerEnv_def upgradedStripper_def)

lemma example_established:
  "ensureWSConn exampleServerEnv exampleStripper = Some (Inr exampleWS, upgradedStripper)"
proof -
  have "wsConn exampleStripper = None"
    by (simp add: exampleStripper_def newWSStripper_def)
  then show ?thesis
    by (simp add: ensureWSConn_def example_handshake upgradedStripper_def)
qed

text \<open>
  C1. On an upgraded stripper: (1) with nothing staged, a \<^verbatim>\<open>Read\<close> that receives the
  message \<open>p\<close> returns its first \<open>min (length b) (length p)\<close> bytes in \<open>b\<close> and stages the
  rest of \<open>p\<close>; (2) with bytes staged, a \<^verbatim>\<open>Read\<close> returns staged bytes and leaves the
  WebSocket connection untouched, so no message is read; (3) over any run of calls, if
  the payloads received so far were the bytes returned so far followed by the staged
  ones, they still are afterwards: the bytes returned by the calls, in order, followed by
  what is staged, are the payloads of the messages received, in order, none lost and
  none twice. Every call of the run returns. (4) A \<^verbatim>\<open>Read\<close> that has to start with the
  handshake behaves, once the handshake has given the connection, as a \<^verbatim>\<open>Read\<close> on the
  upgraded stripper.
\<close>

theorem Read_delivers_messages_in_order:
  assumes "wsConn w = Some c"
  shows "(buf w = [] \<and> shd (incoming c) = Inr (messageType, p) \<longrightarrow>
            Read env w b =
              Some ((min (length b) (length p), None,
                     take (min (length b) (length p)) p @ drop (min (length b) (length p)) b),
                    w\<lparr>wsConn := Some (c\<lparr>incoming := stl (incoming c),
                                         received := received c @ [(messageType, p)]\<rparr>),
                      buf := drop (min (length b) (length p)) p\<rparr>)) \<and>
         (buf w \<noteq> [] \<longrightarrow>
            Read env w b =
              Some ((min (length b) (length (buf w)), None,
                     take (min (length b) (length (buf w))) (buf w) @
                     drop (min (length b) (length (buf w))) b),
                    w\<lparr>buf := drop (min (length b) (length (buf w))) (buf w)\<rparr>)) \<and>
         (payloads (received c) = returned @ buf w \<longrightarrow>
            (\<exists>chunks w' c'. Reads env w bs = Some (chunks, w') \<and> wsConn w' = Some c' \<and>
               length chunks = length bs \<and>
               payloads (received c') = returned @ concat chunks @ buf w')) \<and>
         (ensureWSConn env w0 = Some (Inr c, w) \<longrightarrow> Read env w0 b = Read env w b)"
  using Read_message [OF assms] Read_staged [OF assms] Reads_keep_stream [OF assms]
    Read_after_handshake [of env w0 c w b]
  by blast

lemma upgraded_fields:
  "wsConn upgradedStripper = Some exampleWS"
  "buf upgradedStripper = []"
  "shd (incoming exampleWS) = Inr (BinaryMessage, [1, 2, 3, 4, 5])"
  "payloads (received exampleWS) = [] @ buf upgradedStripper"
  by (simp_all add: upgradedStripper_def exampleWS_def payloads_def)

lemma example_Reads:
  "map_option fst (Reads exampleServerEnv upgradedStripper [[0, 0], [0, 0], [0, 0], [0, 0]]) =
     Some [[1, 2], [3, 4], [5], [6, 7]]"
  by (simp add: Read_def ensureWSConn_def upgradedStripper_def exampleWS_def Buffer_Len_def
      Buffer_Read_def Buffer_Write_def ReadMessage_def copy_bytes_def Let_def)

theorem Read_delivers_messages_in_order_witness:
  "wsConn upgradedStripper = Some exampleWS \<and> buf upgradedStripper = [] \<and>
   shd (incoming exampleWS) = Inr (BinaryMessage, [1, 2, 3, 4, 5]) \<and>
   Read exampleServerEnv upgradedStripper [0, 0] = Some ((2, None, [1, 2]), afterFirstRead) \<and>
   buf afterFirstRead \<noteq> [] \<and>
   Read exampleServerEnv afterFirstRead [0, 0] =
     Some ((2, None, [3, 4]), afterFirstRead\<lparr>buf := [5]\<rparr>) \<and>
   payloads (received exampleWS) = [] @ buf upgradedStripper \<and>
   (\<exists>chunks w' c'.
      Reads exampleServerEnv upgradedStripper [[0, 0], [0, 0], [0, 0], [0, 0]] = Some (chunks, w') \<and>
      chunks = [[1, 2], [3, 4], [5], [6, 7]] \<and>
      wsConn w' = Some c' \<and> payloads (received c') = [] @ concat chunks @ buf w') \<and>
   ensureWSConn exampleServerEnv exampleStripper = Some (Inr exampleWS, upgradedStripper) \<and>
   Read exampleServerEnv exampleStripper [0, 0] = Some ((2, None, [1, 2]), afterFirstRead)"
proof -
  note t1 = Read_delivers_messages_in_order [OF upgraded_fields(1),
      of BinaryMessage "[1, 2, 3, 4, 5]" exampleServerEnv "[0, 0]" "[]"
         "[[0, 0], [0, 0], [0, 0], [0, 0]]" exampleStripper]
  have a: "wsConn afterFirstRead =
     Some (exampleWS\<lparr>incoming := stl (incoming exampleWS),
                      received := received exampleWS @ [(BinaryMessage, [1, 2, 3, 4, 5])]\<rparr>)"
    and b: "buf afterFirstRead = [3, 4, 5]"
    by (simp_all add: afterFirstRead_def)
  note t2 = Read_delivers_messages_in_order [OF a,
      of BinaryMessage "[]" exampleServerEnv "[0, 0]" "[]" "[]" upgradedStripper]
  have r1: "Read exampleServerEnv upgradedStripper [0, 0] = Some ((2, None, [1, 2]), afterFirstRead)"
    using t1 upgraded_fields by (simp add: afterFirstRead_def)
  have r2: "Read exampleServerEnv afterFirstRead [0, 0] =
     Some ((2, None, [3, 4]), afterFirstRead\<lparr>buf := [5]\<rparr>)"
    using t2 b by simp
  from t1 upgraded_fields obtain chunks w' c' where
    rs: "Reads exampleServerEnv upgradedStripper [[0, 0], [0, 0], [0, 0], [0, 0]] = Some (chunks, w')"
      "wsConn w' = Some c'" "payloads (received c') = [] @ concat chunks @ buf w'"
    by blast
  with example_Reads have "chunks = [[1, 2], [3, 4], [5], [6, 7]]" by simp
  moreover from t1 example_established r1
  have "Read exampleServerEnv exampleStripper [0, 0] = Some ((2, None, [1, 2]), afterFirstRead)"
    by simp
  ultimately show ?thesis using rs r1 r2 b upgraded_fields example_established by simp
qed

subsection \<open>Write\<close>

text \<open>
  C7. Whenever the WebSocket connection is there, or the handshake that \<^verbatim>\<open>Write\<close> starts
  with returns, \<^verbatim>\<open>Write\<close> returns. If it returns no error, it reports \<open>length b\<close> bytes
  and the connection has sent exactly one message more, binary, with payload \<open>b\<close>. If it
  returns an error (the handshake's or the one of \<^verbatim>\<open>WriteMessage\<close>), it reports 0
  bytes.
\<close>

theorem Write_one_binary_message:
  assumes "ensureWSConn env w = Some (established, w0)"
  shows "\<exists>n err w'. Write env w b = Some ((n, err), w') \<and>
     (case err of
        Some e \<Rightarrow>
          n = 0 \<and>
          (established = Inl e \<or> (\<exists>c. established = Inr c \<and> shd (outgoing c) = Some e))
      | None \<Rightarrow>
          n = length b \<and>
          (\<exists>c c'. established = Inr c \<and> wsConn w' = Some c' \<and>
             sent c' = sent c @ [(BinaryMessage, b)]))"
proof (cases established)
  case (Inl e)
  with assms show ?thesis by (simp add: Write_def)
next
  case (Inr c)
  with assms show ?thesis
    by (cases "shd (outgoing c)") (simp_all add: Write_def WriteMessage_def)
qed

theorem Write_one_binary_message_witness:
  "ensureWSConn exampleServerEnv exampleStripper = Some (Inr exampleWS, upgradedStripper) \<and>
   Write exampleServerEnv exampleStripper [8, 9] =
     Some ((2, None),
           upgradedStripper\<lparr>wsConn :=
             Some (exampleWS\<lparr>outgoing := sconst None, sent := [(BinaryMessage, [8, 9])]\<rparr>)\<rparr>) \<and>
   (\<exists>n err w'. Write exampleServerEnv exampleStripper [8, 9] = Some ((n, err), w') \<and>
      err = None \<and> n = length [8 :: byte, 9] \<and>
      (\<exists>c'. wsConn w' = Some c' \<and> sent c' = sent exampleWS @ [(BinaryMessage, [8, 9])]))"
proof -
  have w: "Write exampleServerEnv exampleStripper [8, 9] =
     Some ((2, None),
           upgradedStripper\<lparr>wsConn :=
             Some (exampleWS\<lparr>outgoing := sconst None, sent := [(BinaryMessage, [8, 9])]\<rparr>)\<rparr>)"
    by (simp add: Write_def example_established WriteMessage_def exampleWS_def)
  from Write_one_binary_message [OF example_established, of "[8, 9]"] w
  show ?thesis using example_established by auto
qed

section \<open>Further properties\<close>

lemma handshake_returns_cause:
  "handshake env w = Some r \<Longrightarrow>
   \<exists>n. case ioBuf w !! n of Inl err \<Rightarrow> True | Inr req \<Rightarrow> \<not> rejected (WSPath w) req"
proof (induction env w r rule: handshake.raw_induct [rotated 1, consumes 1, case_names step])
  case (step handshake' env w r)
  note 1 = step
  show ?case
  proof (cases "shd (ioBuf w)")
    case (Inl err)
    then have "case ioBuf w !! 0 of Inl err \<Rightarrow> True | Inr req \<Rightarrow> \<not> rejected (WSPath w) req"
      by simp
    then show ?thesis ..
  next
    case (Inr req)
    show ?thesis
    proof (cases "rejected (WSPath w) req")
      case False
      with Inr have "case ioBuf w !! 0 of Inl err \<Rightarrow> True | Inr req \<Rightarrow> \<not> rejected (WSPath w) req"
        by simp
      then show ?thesis ..
    next
      case True
      with Inr 1(2)
      have "handshake' env (w\<lparr>ioBuf := stl (ioBuf w), Conn := Conn w @ [http404Response]\<rparr>) = Some r"
        by simp
      from 1(1) [OF this] have
        "\<exists>n. case stl (ioBuf w) !! n of Inl err \<Rightarrow> True | Inr req \<Rightarrow> \<not> rejected (WSPath w) req"
        by (simp cong: sum.case_cong)
      then obtain n where
        "case ioBuf w !! Suc n of Inl err \<Rightarrow> True | Inr req \<Rightarrow> \<not> rejected (WSPath w) req"
        by auto
      then show ?thesis ..
    qed
  qed
qed

text \<open>
  X1. The handshake has no bound on the requests it rejects: while every request that
  arrives is one it rejects, it never returns.
\<close>

theorem handshake_never_returns_on_rejected_forever:
  assumes "\<forall>n. \<exists>req. ioBuf w !! n = Inr req \<and> rejected (WSPath w) req"
  shows "handshake env w = None"
proof (cases "handshake env w")
  case None
  then show ?thesis .
next
  case (Some r)
  from handshake_returns_cause [OF this] obtain n where
    "case ioBuf w !! n of Inl err \<Rightarrow> True | Inr req \<Rightarrow> \<not> rejected (WSPath w) req" ..
  with assms show ?thesis by (auto split: sum.splits dest: spec [of _ n])
qed

theorem handshake_never_returns_on_rejected_forever_witness:
  "(\<forall>n. ioBuf proberStripper !! n = Inr (upgradeRequest ''/wrong'')) \<and>
   rejected (WSPath proberStripper) (upgradeRequest ''/wrong'') \<and>
   handshake exampleServerEnv proberStripper = None"
proof -
  have a: "\<forall>n. ioBuf proberStripper !! n = Inr (upgradeRequest ''/wrong'')"
    by (simp add: proberStripper_def newWSStripper_def)
  have b: "rejected (WSPath proberStripper) (upgradeRequest ''/wrong'')"
    by (simp add: proberStripper_def newWSStripper_def rejected_def upgradeRequest_def)
  from a b have "\<forall>n. \<exists>req. ioBuf proberStripper !! n = Inr req \<and> rejected (WSPath proberStripper) req"
    by blast
  from handshake_never_returns_on_rejected_forever [OF this] a b show ?thesis by simp
qed

text \<open>
  X2. When reading a request fails after any number of rejected requests, the handshake
  returns that error, having written one 404 response per rejected request; no upgrade
  is attempted.
\<close>

theorem handshake_read_error:
  assumes "ioBuf w = map Inr rs @- (Inl err ## rest)"
    and "\<forall>r\<in>set rs. rejected (WSPath w) r"
  shows "handshake env w =
     Some (Inl err, w\<lparr>ioBuf := rest, Conn := Conn w @ replicate (length rs) http404Response\<rparr>)"
proof -
  let ?w = "w\<lparr>ioBuf := Inl err ## rest, Conn := Conn w @ replicate (length rs) http404Response\<rparr>"
  from assms(2,1) have "handshake env w = handshake env ?w"
    by (rule handshake_skips_rejected)
  also have "\<dots> = Some (Inl err, ?w\<lparr>ioBuf := rest\<rparr>)"
    by (subst handshake.simps) simp
  finally show ?thesis by simp
qed

theorem handshake_read_error_witness:
  "ioBuf closingStripper =
     map Inr [upgradeRequest ''/wrong''] @- (Inl ''EOF'' ## sconst (Inl ''EOF'')) \<and>
   rejected (WSPath closingStripper) (upgradeRequest ''/wrong'') \<and>
   handshake exampleServerEnv closingStripper =
     Some (Inl ''EOF'',
           \<lparr>Conn = [http404Response], WSPath = ''/chat'', buf = [],
            ioBuf = sconst (Inl ''EOF''), wsConn = None\<rparr>)"
proof -
  have io: "ioBuf closingStripper =
     map Inr [upgradeRequest ''/wrong''] @- (Inl ''EOF'' ## sconst (Inl ''EOF''))"
    by (simp add: closingStripper_def newWSStripper_def)
  have rej: "\<forall>r\<in>set [upgradeRequest ''/wrong'']. rejected (WSPath closingStripper) r"
    by (simp add: rejected_def closingStripper_def newWSStripper_def upgradeRequest_def)
  from handshake_read_error [OF io rej, of exampleServerEnv]
  have "handshake exampleServerEnv closingStripper =
     Some (Inl ''EOF'',
           \<lparr>Conn = [http404Response], WSPath = ''/chat'', buf = [],
            ioBuf = sconst (Inl ''EOF''), wsConn = None\<rparr>)"
    by (simp add: closingStripper_def newWSStripper_def)
  with io rej show ?thesis by simp
qed

text \<open>
  X3. When every configuration step succeeds, \<^verbatim>\<open>launchClient\<close> calls \<^verbatim>\<open>cli.Serve\<close> on the
  client those steps built: it returns when serving returns \<^verbatim>\<open>nil\<close> and ends the process
  with exit code 1 when serving fails.
\<close>

theorem launchClient_serves_when_configured:
  assumes "Unmarshal t = Inr config"
    and "setUsers lenv t (newClient lenv config) = Return cli1"
    and "setRules lenv t cli1 = Return cli2"
    and "setTLS env lenv config cli2 = Return cli3"
    and "setSSH env config cli3 = Return cli4"
  shows "launchClient env lenv t =
     (case Serve lenv cli4 of
        Some err \<Rightarrow> Exit 1 ''Launch client failed: %s'' err
      | None \<Rightarrow> Return cli4)"
  using assms
  by (simp add: launchClient_def parseConfig_def serve_def log_Fatalf_def split: option.splits)

lemma good_TLS:
  "getClientTLSConfig exampleEnv ''example.com:443'' ''ca.pem'' False =
     Inr \<lparr>ServerName = ''example.com'', RootCAs = Some {''rootCA''},
          InsecureSkipVerify = False, VerifyConnection = None\<rparr>"
  using loadCA_example example_hosts by (simp add: getClientTLSConfig_def Let_def)

theorem launchClient_serves_when_configured_witness:
  "Unmarshal goodTree = Inr goodConfig \<and>
   setUsers exampleLaunchEnv goodTree (newClient exampleLaunchEnv goodConfig) =
     Return (goodClient\<lparr>cliRules := None, cliTLSConfig := None\<rparr>) \<and>
   setRules exampleLaunchEnv goodTree (goodClient\<lparr>cliRules := None, cliTLSConfig := None\<rparr>) =
     Return (goodClient\<lparr>cliTLSConfig := None\<rparr>) \<and>
   setTLS exampleEnv exampleLaunchEnv goodConfig (goodClient\<lparr>cliTLSConfig := None\<rparr>) =
     Return goodClient \<and>
   setSSH exampleEnv goodConfig goodClient = Return goodClient \<and>
   launchClient exampleEnv exampleLaunchEnv goodTree = Return goodClient"
proof -
  have u: "Unmarshal goodTree = Inr goodConfig"
    by (simp add: goodTree_def)
  have s1: "setUsers exampleLaunchEnv goodTree (newClient exampleLaunchEnv goodConfig) =
     Return (goodClient\<lparr>cliRules := None, cliTLSConfig := None\<rparr>)"
    by (simp add: setUsers_def goodTree_def newClient_def exampleLaunchEnv_def goodConfig_def
        exampleConfig_def goodClient_def)
  have s2: "setRules exampleLaunchEnv goodTree (goodClient\<lparr>cliRules := None, cliTLSConfig := None\<rparr>) =
     Return (goodClient\<lparr>cliTLSConfig := None\<rparr>)"
    by (simp add: setRules_def goodTree_def exampleLaunchEnv_def goodClient_def)
  have s3: "setTLS exampleEnv exampleLaunchEnv goodConfig (goodClient\<lparr>cliTLSConfig := None\<rparr>) =
     Return goodClient"
    using good_TLS
    by (simp add: setTLS_def exampleLaunchEnv_def goodConfig_def exampleConfig_def goodClient_def)
  have s4: "setSSH exampleEnv goodConfig goodClient = Return goodClient"
    by (simp add: setSSH_def goodConfig_def exampleConfig_def)
  from launchClient_serves_when_configured [OF u s1 s2 s3 s4]
  have "launchClient exampleEnv exampleLaunchEnv goodTree = Return goodClient"
    by (simp add: exampleLaunchEnv_def)
  with u s1 s2 s3 s4 show ?thesis by simp
qed

text \<open>
  X4. With \<open>skipVerify\<close> off, the manual verifier panics on every connection state whose
  list of peer certificates is empty or holds a \<^verbatim>\<open>nil\<close> entry: it returns on the chains of
  certificates and on nothing else.
\<close>

theorem verifier_panics_outside_chains:
  assumes "PeerCertificates cs = [] \<or> None \<in> set (PeerCertificates cs)"
  shows "\<exists>msg. verifyConnection env rootCAs False cs = Panics msg"
proof (cases "PeerCertificates cs")
  case Nil
  then show ?thesis by (simp add: verifyConnection_def)
next
  case (Cons x xs)
  show ?thesis
  proof (cases "None \<in> set xs")
    case True
    from addIntermediates_nil [OF True, of 0 NewCertPool] Cons show ?thesis
      by (simp add: verifyConnection_def)
  next
    case False
    with assms Cons have x: "x = None" by auto
    from nil_free_chain [OF False] obtain ys where "xs = map Some ys" ..
    with addIntermediates_aux [of 0 ys NewCertPool] Cons x show ?thesis
      by (simp add: verifyConnection_def)
  qed
qed

theorem verifier_panics_outside_chains_witness:
  "None \<in> set (PeerCertificates \<lparr>PeerCertificates = [None, Some ''mid''], csServerName = []\<rparr>) \<and>
   verifyConnection exampleEnv None False
       \<lparr>PeerCertificates = [None, Some ''mid''], csServerName = []\<rparr> =
     Panics ''invalid memory address or nil pointer dereference''"
proof -
  let ?cs = "\<lparr>PeerCertificates = [None, Some ''mid''], csServerName = []\<rparr>"
  have n: "PeerCertificates ?cs = [] \<or> None \<in> set (PeerCertificates ?cs)" by simp
  from verifier_panics_outside_chains [OF n, of exampleEnv None]
  show ?thesis by (simp add: verifyConnection_def NewCertPool_def AddCert_def)
qed

end
